theory Spec2Isabelle
  imports Main "HOL-Library.Sublist"
begin

section \<open>Audify-JS-Plus: platform resolution, binary verification and the export surface\<close>

text \<open>
  A shallow embedding of \<^verbatim>\<open>index.js\<close> and of \<^verbatim>\<open>setBinaryPermissions\<close> from
  \<^verbatim>\<open>postinstall.js\<close>. Every JavaScript function is a HOL function that returns an
  outcome: either the thrown value (\<open>Inl\<close>) or the returned value (\<open>Inr\<close>), paired with
  the console output it produced, in order. The operating system, the process and the
  file system are explicit arguments.
\<close>

subsection \<open>Thrown values, console output, outcomes\<close>

text \<open>\<^verbatim>\<open>new Error(message)\<close>; \<^verbatim>\<open>error.message\<close> is the selector.\<close>

datatype error = Error (message: string)

text \<open>
  One argument of a console call: a string, or a thrown value passed as an object
  (\<^verbatim>\<open>console.error(text, error)\<close>).
\<close>

datatype 'e console_arg = Text string | Thrown 'e

datatype 'e log_entry =
    ConsoleLog "'e console_arg list"
  | ConsoleWarn "'e console_arg list"
  | ConsoleError "'e console_arg list"

type_synonym ('e, 'a) outcome = "('e + 'a) \<times> 'e log_entry list"

definition returns :: "'a \<Rightarrow> ('e, 'a) outcome" where
  "returns v = (Inr v, [])"

definition throw :: "'e \<Rightarrow> ('e, 'a) outcome" where
  "throw e = (Inl e, [])"

definition console_log :: "string \<Rightarrow> ('e, unit) outcome" where
  "console_log s = (Inr (), [ConsoleLog [Text s]])"

definition console_warn :: "string \<Rightarrow> ('e, unit) outcome" where
  "console_warn s = (Inr (), [ConsoleWarn [Text s]])"

definition console_error :: "'e console_arg list \<Rightarrow> ('e, unit) outcome" where
  "console_error args = (Inr (), [ConsoleError args])"

text \<open>Sequencing of statements: a throw skips the rest, the output accumulates.\<close>

definition bind :: "('e, 'a) outcome \<Rightarrow> ('a \<Rightarrow> ('e, 'b) outcome) \<Rightarrow> ('e, 'b) outcome" where
  "bind m f =
     (case m of
        (Inl e, out) \<Rightarrow> (Inl e, out)
      | (Inr v, out) \<Rightarrow> (case f v of (r, out') \<Rightarrow> (r, out @ out')))"

text \<open>\<^verbatim>\<open>try { body } catch (error) { handler }\<close>\<close>

definition try_catch :: "('e, 'a) outcome \<Rightarrow> ('e \<Rightarrow> ('e, 'a) outcome) \<Rightarrow> ('e, 'a) outcome" where
  "try_catch body handler =
     (case body of
        (Inl e, out) \<Rightarrow> (case handler e of (r, out') \<Rightarrow> (r, out @ out'))
      | (Inr v, out) \<Rightarrow> (Inr v, out))"

subsection \<open>Plain data and objects\<close>

text \<open>
  An object is the list of its own properties in insertion order. Defining a property
  that exists replaces its value in place; a new one is appended.
\<close>

datatype json =
    JNumber int
  | JString string
  | JBoolean bool
  | JObject "(string \<times> json) list"

fun obj_set :: "(string \<times> 'v) list \<Rightarrow> string \<Rightarrow> 'v \<Rightarrow> (string \<times> 'v) list" where
  "obj_set [] k v = [(k, v)]"
| "obj_set ((k', v') # ps) k v = (if k' = k then (k, v) # ps else (k', v') # obj_set ps k v)"

definition obj_keys :: "(string \<times> 'v) list \<Rightarrow> string list" where
  "obj_keys obj = map fst obj"

definition obj_get :: "(string \<times> 'v) list \<Rightarrow> string \<Rightarrow> 'v option" where
  "obj_get obj k = map_of obj k"

text \<open>An object literal, or a spread into one: the properties are defined one by one.\<close>

definition obj_define_all :: "(string \<times> 'v) list \<Rightarrow> (string \<times> 'v) list \<Rightarrow> (string \<times> 'v) list" where
  "obj_define_all obj props = fold (\<lambda>(k, v) acc. obj_set acc k v) props obj"

text \<open>\<^verbatim>\<open>Array.prototype.join\<close>\<close>

fun join :: "string \<Rightarrow> string list \<Rightarrow> string" where
  "join sep [] = []"
| "join sep [x] = x"
| "join sep (x # y # ys) = x @ sep @ join sep (y # ys)"

subsection \<open>The constant tables of \<^verbatim>\<open>index.js\<close>\<close>

definition PLATFORM_MAP :: "(string \<times> string) list" where
  "PLATFORM_MAP =
     [(''win32-x64'', ''win32-x64''),
      (''win32-ia32'', ''win32-ia32''),
      (''win32-arm64'', ''win32-arm64''),
      (''darwin-x64'', ''darwin-x64''),
      (''darwin-arm64'', ''darwin-arm64''),
      (''linux-x64'', ''linux-x64''),
      (''linux-arm64'', ''linux-arm64''),
      (''linux-arm'', ''linux-arm'')]"

definition OpusApplication :: "(string \<times> int) list" where
  "OpusApplication =
     [(''OPUS_APPLICATION_VOIP'', 2048),
      (''OPUS_APPLICATION_AUDIO'', 2049),
      (''OPUS_APPLICATION_RESTRICTED_LOWDELAY'', 2051)]"

definition RtAudioApi :: "(string \<times> int) list" where
  "RtAudioApi =
     [(''RTAUDIO_API_UNSPECIFIED'', 0),
      (''RTAUDIO_API_LINUX_ALSA'', 1),
      (''RTAUDIO_API_LINUX_PULSE'', 2),
      (''RTAUDIO_API_LINUX_OSS'', 3),
      (''RTAUDIO_API_UNIX_JACK'', 4),
      (''RTAUDIO_API_MACOSX_CORE'', 5),
      (''RTAUDIO_API_WINDOWS_WASAPI'', 6),
      (''RTAUDIO_API_WINDOWS_ASIO'', 7),
      (''RTAUDIO_API_WINDOWS_DS'', 8),
      (''RTAUDIO_API_RTAUDIO_DUMMY'', 9)]"

definition RtAudioFormat :: "(string \<times> int) list" where
  "RtAudioFormat =
     [(''RTAUDIO_FORMAT_SINT8'', 1),
      (''RTAUDIO_FORMAT_SINT16'', 2),
      (''RTAUDIO_FORMAT_SINT24'', 4),
      (''RTAUDIO_FORMAT_SINT32'', 8),
      (''RTAUDIO_FORMAT_FLOAT32'', 16),
      (''RTAUDIO_FORMAT_FLOAT64'', 32)]"

definition RtAudioStreamFlags :: "(string \<times> int) list" where
  "RtAudioStreamFlags =
     [(''RTAUDIO_FLAGS_NONINTERLEAVED'', 1),
      (''RTAUDIO_FLAGS_MINIMIZE_LATENCY'', 2),
      (''RTAUDIO_FLAGS_HOG_DEVICE'', 4),
      (''RTAUDIO_FLAGS_SCHEDULE_REALTIME'', 8),
      (''RTAUDIO_FLAGS_ALSA_USE_DEFAULT'', 16),
      (''RTAUDIO_FLAGS_JACK_DONT_CONNECT'', 32)]"

definition RtAudioErrorType :: "(string \<times> int) list" where
  "RtAudioErrorType =
     [(''RTAUDIO_ERROR_WARNING'', 0),
      (''RTAUDIO_ERROR_DEBUG_WARNING'', 1),
      (''RTAUDIO_ERROR_UNSPECIFIED'', 2),
      (''RTAUDIO_ERROR_NO_DEVICES_FOUND'', 3),
      (''RTAUDIO_ERROR_INVALID_DEVICE'', 4),
      (''RTAUDIO_ERROR_MEMORY_ERROR'', 5),
      (''RTAUDIO_ERROR_INVALID_PARAMETER'', 6),
      (''RTAUDIO_ERROR_INVALID_USE'', 7),
      (''RTAUDIO_ERROR_DRIVER_ERROR'', 8),
      (''RTAUDIO_ERROR_SYSTEM_ERROR'', 9),
      (''RTAUDIO_ERROR_THREAD_ERROR'', 10)]"

text \<open>A constant table as the object it is.\<close>

definition table :: "(string \<times> int) list \<Rightarrow> json" where
  "table t = JObject (map (\<lambda>(k, n). (k, JNumber n)) t)"

subsection \<open>The host: operating system, process, file system\<close>

text \<open>
  \<open>platform\<close> is \<^verbatim>\<open>os.platform()\<close> and \<^verbatim>\<open>process.platform\<close>, \<open>arch\<close> is
  \<^verbatim>\<open>os.arch()\<close>, \<open>dirname\<close> is \<^verbatim>\<open>__dirname\<close> of \<^verbatim>\<open>index.js\<close> (absolute and
  normalised, as Node provides it), \<open>vscode_pid\<close> says whether
  \<^verbatim>\<open>process.env.VSCODE_PID\<close> is set to a non-empty string.
\<close>

record host =
  platform :: string
  arch :: string
  dirname :: string
  vscode_pid :: bool

text \<open>
  The file system: \<open>file_mode\<close> gives the permission bits of each existing path,
  \<open>access_error\<close> what \<^verbatim>\<open>fs.accessSync(path, fs.constants.R_OK)\<close> throws on an existing
  path (nothing when the file is readable), \<open>chmod_error\<close> what \<^verbatim>\<open>fs.chmodSync\<close>
  throws on an existing path (nothing when the change is permitted).
\<close>

record fs =
  file_mode :: "string \<Rightarrow> nat option"
  access_error :: "string \<Rightarrow> error option"
  chmod_error :: "string \<Rightarrow> error option"

definition existsSync :: "fs \<Rightarrow> string \<Rightarrow> bool" where
  "existsSync f p = (file_mode f p \<noteq> None)"

definition ENOENT :: "string \<Rightarrow> string \<Rightarrow> error" where
  "ENOENT syscall p =
     Error (''ENOENT: no such file or directory, '' @ syscall @ '' '' @ [CHR 0x27] @ p @ [CHR 0x27])"

definition accessSync_R_OK :: "fs \<Rightarrow> string \<Rightarrow> (error, unit) outcome" where
  "accessSync_R_OK f p =
     (case file_mode f p of
        None \<Rightarrow> throw (ENOENT ''access'' p)
      | Some m \<Rightarrow> (case access_error f p of Some e \<Rightarrow> throw e | None \<Rightarrow> returns ()))"

definition readable :: "fs \<Rightarrow> string \<Rightarrow> bool" where
  "readable f p = (access_error f p = None)"

text \<open>
  \<^verbatim>\<open>path.join\<close> with the separator of the platform: empty segments are skipped, the
  rest is joined with the separator and the result is normalised; no segment at all
  gives \<^verbatim>\<open>.\<close>. This program joins \<^verbatim>\<open>__dirname\<close>, which Node provides absolute and
  normalised, with literal names that have no separator and no dot segment.
  Normalisation changes such a join in one case only: a \<^verbatim>\<open>__dirname\<close> that is a root
  (\<^verbatim>\<open>/\<close>, or a drive or share root on Windows) ends in the separator already, and no
  second one follows it.
\<close>

definition path_sep :: "host \<Rightarrow> string" where
  "path_sep h = (if platform h = ''win32'' then [CHR 0x5C] else ''/'')"

definition path_join :: "host \<Rightarrow> string list \<Rightarrow> string" where
  "path_join h segments =
     (case filter (\<lambda>segment. segment \<noteq> []) segments of
        [] \<Rightarrow> ''.''
      | first # rest \<Rightarrow>
          if rest \<noteq> [] \<and> [last first] = path_sep h then first @ join (path_sep h) rest
          else join (path_sep h) (first # rest))"

subsection \<open>\<^verbatim>\<open>getBinaryPath\<close>\<close>

text \<open>The template \<^verbatim>\<open>`${os.platform()}-${os.arch()}`\<close>.\<close>

definition platform_key :: "host \<Rightarrow> string" where
  "platform_key h = platform h @ ''-'' @ arch h"

definition unsupported_message :: "string \<Rightarrow> string" where
  "unsupported_message key =
     ''[Audify-JS-Plus] Unsupported platform: '' @ key @ ''. '' @
     ''Supported platforms: '' @ join '', '' (obj_keys PLATFORM_MAP)"

text \<open>
  \<^verbatim>\<open>!platformFolder\<close> holds for a missing property (\<^verbatim>\<open>undefined\<close>) and for the empty
  string. The key always contains a hyphen, which no property inherited from
  \<^verbatim>\<open>Object.prototype\<close> does, so the lookup is a lookup among the own properties of the
  table.
\<close>

definition getBinaryPath :: "host \<Rightarrow> (error, string) outcome" where
  "getBinaryPath h =
     (let key = platform_key h in
      bind (console_log (''[Audify-JS-Plus] Detecting platform: '' @ key)) (\<lambda>_.
        case obj_get PLATFORM_MAP key of
          None \<Rightarrow> throw (Error (unsupported_message key))
        | Some platformFolder \<Rightarrow>
            if platformFolder = [] then throw (Error (unsupported_message key))
            else
              (let binaryPath =
                     path_join h [dirname h, ''prebuilds'', platformFolder,
                                  ''build'', ''Release'', ''audify.node'']
               in bind (console_log (''[Audify-JS-Plus] Binary path: '' @ binaryPath)) (\<lambda>_.
                    returns binaryPath))))"

subsection \<open>\<^verbatim>\<open>verifyBinary\<close>\<close>

definition verifyBinary :: "fs \<Rightarrow> string \<Rightarrow> (error, bool) outcome" where
  "verifyBinary f binaryPath =
     try_catch
       (if \<not> existsSync f binaryPath then
          bind (console_error [Text (''[Audify-JS-Plus] Binary not found: '' @ binaryPath)]) (\<lambda>_.
            returns False)
        else
          bind (accessSync_R_OK f binaryPath) (\<lambda>_.
          bind (console_log (''[Audify-JS-Plus] Binary verified: '' @ binaryPath)) (\<lambda>_.
            returns True)))
       (\<lambda>error.
          bind (console_error [Text ''[Audify-JS-Plus] Binary verification failed:'',
                               Text (message error)]) (\<lambda>_.
            returns False))"

subsection \<open>\<^verbatim>\<open>loadNativeModule\<close> and the load at the top of the module\<close>

text \<open>
  \<open>req\<close> is \<^verbatim>\<open>require\<close> on a native binary: the dynamic loader, which either throws
  or returns the module's export object.
\<close>

definition loadNativeModule :: "(string \<Rightarrow> error + 'm) \<Rightarrow> host \<Rightarrow> fs \<Rightarrow> (error, 'm) outcome" where
  "loadNativeModule req h f =
     bind (getBinaryPath h) (\<lambda>binaryPath.
     bind (verifyBinary f binaryPath) (\<lambda>ok.
       if \<not> ok then
         throw (Error (''[Audify-JS-Plus] Cannot load binary: '' @ binaryPath @ ''. '' @
                       ''Please ensure the binary exists and is accessible.''))
       else
         try_catch
           (bind (console_log ''[Audify-JS-Plus] Loading native module...'') (\<lambda>_.
            bind (req binaryPath, []) (\<lambda>nativeModule.
            bind (console_log ''[Audify-JS-Plus] Native module loaded successfully'') (\<lambda>_.
              returns nativeModule))))
           (\<lambda>error.
              bind (console_error [Text ''[Audify-JS-Plus] Failed to load native module:'',
                                   Thrown error]) (\<lambda>_.
                throw (Error (''[Audify-JS-Plus] Failed to load native module from '' @
                              binaryPath @ '': '' @ message error))))))"

definition load_rawAudify :: "(string \<Rightarrow> error + 'm) \<Rightarrow> host \<Rightarrow> fs \<Rightarrow> (error, 'm) outcome" where
  "load_rawAudify req h f =
     try_catch (loadNativeModule req h f)
       (\<lambda>error.
          bind (console_error [Text ''[Audify-JS-Plus] Initialization failed:'',
                               Text (message error)]) (\<lambda>_.
            if vscode_pid h then
              throw (Error (''[Audify-JS-Plus] Failed to initialize in VS Code extension. '' @
                            ''This might be due to missing native binaries or platform incompatibility. '' @
                            ''Original error: '' @ message error))
            else throw error))"

subsection \<open>\<^verbatim>\<open>withErrorHandling\<close>\<close>

text \<open>
  A value is a primitive or an object. A function value is invoked in one of two ways:
  called, \<^verbatim>\<open>f.apply(this, args)\<close>, with the \<^verbatim>\<open>this\<close> the caller passes; or
  constructed, \<^verbatim>\<open>new f(...args)\<close>, with the object allocated for the new instance. What
  a function of the native module does is its own affair in either case: a class of
  the native module returns its instance when constructed and throws a
  \<^verbatim>\<open>TypeError\<close> when called.
\<close>

datatype ('p, 'o) js_val =
    Primitive 'p
  | Object 'o

datatype ('p, 'o) invocation =
    Call "('p, 'o) js_val"
  | Construct 'o

type_synonym ('p, 'o, 'e) js_function =
  "('p, 'o) invocation \<Rightarrow> ('p, 'o) js_val list \<Rightarrow> ('e, ('p, 'o) js_val) outcome"

text \<open>
  The body of the function that \<^verbatim>\<open>withErrorHandling\<close> returns:
  \<^verbatim>\<open>fn.apply(this, args)\<close> calls \<open>fn\<close>, whichever way the wrapper itself was invoked.
\<close>

definition wrapper_body ::
    "('p, 'o, 'e) js_function \<Rightarrow> string \<Rightarrow> ('p, 'o) js_val \<Rightarrow> ('p, 'o) js_val list
     \<Rightarrow> ('e, ('p, 'o) js_val) outcome" where
  "wrapper_body fn functionName this args =
     try_catch (fn (Call this) args)
       (\<lambda>error.
          bind (console_error [Text (''[Audify-JS-Plus] Error in '' @ functionName @ '':''),
                               Thrown error]) (\<lambda>_.
            throw error))"

text \<open>
  The wrapper is an ordinary \<^verbatim>\<open>function\<close> expression. Called, it runs its body with
  the caller's \<^verbatim>\<open>this\<close>. Constructed, it runs its body with the new object as
  \<^verbatim>\<open>this\<close>; the result of \<^verbatim>\<open>new\<close> is the value the body returns if that is an
  object, and the new object otherwise.
\<close>

definition withErrorHandling :: "('p, 'o, 'e) js_function \<Rightarrow> string \<Rightarrow> ('p, 'o, 'e) js_function" where
  "withErrorHandling fn functionName =
     (\<lambda>how args.
        case how of
          Call this \<Rightarrow> wrapper_body fn functionName this args
        | Construct new_object \<Rightarrow>
            (case wrapper_body fn functionName (Object new_object) args of
               (Inr (Object result), out) \<Rightarrow> (Inr (Object result), out)
             | (Inr (Primitive result), out) \<Rightarrow> (Inr (Object new_object), out)
             | (Inl error, out) \<Rightarrow> (Inl error, out)))"

subsection \<open>The exported object\<close>

text \<open>
  A value of the native module is a function (\<^verbatim>\<open>typeof v === 'function'\<close>) or
  anything else. A value of the exported object is a value of the native module, plain
  data, or one of the two closures of \<^verbatim>\<open>index.js\<close>, which read the operating system
  and the file system when they are called.
\<close>

datatype ('f, 'x) native_value =
    Function 'f
  | Other 'x

datatype ('f, 'x) js_value =
    Native "('f, 'x) native_value"
  | Data json
  | Closure "host \<Rightarrow> fs \<Rightarrow> (error, json) outcome"

definition getPlatformInfo :: "host \<Rightarrow> fs \<Rightarrow> (error, json) outcome" where
  "getPlatformInfo h f =
     bind (getBinaryPath h) (\<lambda>binaryPath.
       returns (JObject [(''platform'', JString (platform h)),
                         (''arch'', JString (arch h)),
                         (''key'', JString (platform_key h)),
                         (''binaryPath'', JString binaryPath)]))"

definition healthCheck :: "host \<Rightarrow> fs \<Rightarrow> (error, json) outcome" where
  "healthCheck h f =
     try_catch
       (bind (getBinaryPath h) (\<lambda>binaryPath.
        bind (verifyBinary f binaryPath) (\<lambda>exists.
          returns (JObject [(''status'', JString (if exists then ''healthy'' else ''unhealthy'')),
                            (''platform'', JString (platform_key h)),
                            (''binaryPath'', JString binaryPath),
                            (''binaryExists'', JBoolean exists)]))))
       (\<lambda>error.
          returns (JObject [(''status'', JString ''error''),
                            (''error'', JString (message error)),
                            (''platform'', JString (platform_key h))]))"

text \<open>\<^verbatim>\<open>require('./package.json').version || '1.0.0'\<close>, with the version of the package file.\<close>

definition package_json_version :: string where
  "package_json_version = ''2.0.1''"

definition version :: string where
  "version = (if package_json_version = [] then ''1.0.0'' else package_json_version)"

text \<open>
  The callback of the loop over the keys of the native module: a property whose value
  is a function is replaced by its wrapper, any other is left as it is.
\<close>

definition install_wrapper ::
    "(string \<times> (('p, 'o, 'e) js_function, 'x) native_value) list \<Rightarrow> string
     \<Rightarrow> (string \<times> (('p, 'o, 'e) js_function, 'x) js_value) list
     \<Rightarrow> (string \<times> (('p, 'o, 'e) js_function, 'x) js_value) list" where
  "install_wrapper rawAudify key exports =
     (case obj_get rawAudify key of
        Some (Function fn) \<Rightarrow> obj_set exports key (Native (Function (withErrorHandling fn key)))
      | Some (Other x) \<Rightarrow> exports
      | None \<Rightarrow> exports)"

text \<open>The spread \<^verbatim>\<open>...rawAudify\<close> into an empty object literal.\<close>

definition spread :: "(string \<times> ('f, 'x) native_value) list \<Rightarrow> (string \<times> ('f, 'x) js_value) list" where
  "spread rawAudify = obj_define_all [] (map (\<lambda>(k, v). (k, Native v)) rawAudify)"

text \<open>
  The object literal: the spread of the native module first, then the properties of
  \<^verbatim>\<open>index.js\<close>. After it, the loop over the keys of the native module.
\<close>

definition audifyExports ::
    "(string \<times> (('p, 'o, 'e) js_function, 'x) native_value) list
     \<Rightarrow> (string \<times> (('p, 'o, 'e) js_function, 'x) js_value) list" where
  "audifyExports rawAudify =
     (let literal =
            obj_define_all (spread rawAudify)
              [(''OpusApplication'', Data (table OpusApplication)),
               (''RtAudioApi'', Data (table RtAudioApi)),
               (''RtAudioFormat'', Data (table RtAudioFormat)),
               (''RtAudioStreamFlags'', Data (table RtAudioStreamFlags)),
               (''RtAudioErrorType'', Data (table RtAudioErrorType)),
               (''getPlatformInfo'', Closure getPlatformInfo),
               (''version'', Data (JString version)),
               (''healthCheck'', Closure healthCheck)]
      in fold (install_wrapper rawAudify) (obj_keys rawAudify) literal)"

text \<open>Loading \<^verbatim>\<open>index.js\<close>: the value of \<^verbatim>\<open>module.exports\<close>, or the error thrown.\<close>

definition require_index ::
    "(string \<Rightarrow> error + (string \<times> (('p, 'o, 'e) js_function, 'x) native_value) list)
     \<Rightarrow> host \<Rightarrow> fs
     \<Rightarrow> (error, (string \<times> (('p, 'o, 'e) js_function, 'x) js_value) list) outcome" where
  "require_index req h f =
     bind (load_rawAudify req h f) (\<lambda>rawAudify. returns (audifyExports rawAudify))"

subsection \<open>\<^verbatim>\<open>setBinaryPermissions\<close> of \<^verbatim>\<open>postinstall.js\<close>\<close>

text \<open>The mode \<^verbatim>\<open>0o755\<close> and the three permission groups of a mode.\<close>

definition mode_0o755 :: nat where
  "mode_0o755 = 7 * 64 + 5 * 8 + 5"

definition owner_bits :: "nat \<Rightarrow> nat" where
  "owner_bits m = (m div 64) mod 8"

definition group_bits :: "nat \<Rightarrow> nat" where
  "group_bits m = (m div 8) mod 8"

definition other_bits :: "nat \<Rightarrow> nat" where
  "other_bits m = m mod 8"

text \<open>Read, write and execute of one group.\<close>

definition rwx :: "nat \<Rightarrow> bool \<times> bool \<times> bool" where
  "rwx b = (b div 4 mod 2 = 1, b div 2 mod 2 = 1, b mod 2 = 1)"

definition chmodSync :: "fs \<Rightarrow> string \<Rightarrow> nat \<Rightarrow> (error, unit) outcome \<times> fs" where
  "chmodSync f p m =
     (case file_mode f p of
        None \<Rightarrow> (throw (ENOENT ''chmod'' p), f)
      | Some old \<Rightarrow>
          (case chmod_error f p of
             Some e \<Rightarrow> (throw e, f)
           | None \<Rightarrow> (returns (), f\<lparr>file_mode := (file_mode f)(p \<mapsto> m)\<rparr>)))"

definition setBinaryPermissions :: "host \<Rightarrow> fs \<Rightarrow> string \<Rightarrow> (error, bool) outcome \<times> fs" where
  "setBinaryPermissions h f binaryPath =
     (if platform h = ''win32'' then
        (bind (console_log ''[Audify-JS-Plus] Windows detected, skipping permission setup'') (\<lambda>_.
           returns True), f)
      else
        (let (body, f') =
               (if \<not> existsSync f binaryPath then
                  (bind (console_warn (''[Audify-JS-Plus] Warning: Binary not found at '' @ binaryPath)) (\<lambda>_.
                     returns False), f)
                else
                  (case chmodSync f binaryPath mode_0o755 of
                     (r, f'') \<Rightarrow>
                       (bind r (\<lambda>_.
                        bind (console_log (''[Audify-JS-Plus] Set executable permissions for '' @ binaryPath)) (\<lambda>_.
                          returns True)), f'')))
         in (try_catch body
               (\<lambda>error.
                  bind (console_error [Text ''[Audify-JS-Plus] Failed to set permissions:'',
                                       Text (message error)]) (\<lambda>_.
                    returns False)), f')))"

subsection \<open>Reading a report\<close>

text \<open>Property access on a value, as in \<^verbatim>\<open>health.status\<close>: a missing property reads as nothing.\<close>

definition json_get :: "json \<Rightarrow> string \<Rightarrow> json option" where
  "json_get j k = (case j of JObject props \<Rightarrow> obj_get props k | _ \<Rightarrow> None)"

subsection \<open>Concrete hosts, file systems and native modules\<close>

definition linux_x64 :: host where
  "linux_x64 = \<lparr>platform = ''linux'', arch = ''x64'', dirname = ''/app'', vscode_pid = False\<rparr>"

definition freebsd_x64 :: host where
  "freebsd_x64 = \<lparr>platform = ''freebsd'', arch = ''x64'', dirname = ''/app'', vscode_pid = False\<rparr>"

definition win32_x64 :: host where
  "win32_x64 =
     \<lparr>platform = ''win32'', arch = ''x64'', dirname = ''C:'' @ [CHR 0x5C] @ ''app'', vscode_pid = False\<rparr>"

definition linux_artifact :: string where
  "linux_artifact = ''/app/prebuilds/linux-x64/build/Release/audify.node''"

definition mode_0o644 :: nat where
  "mode_0o644 = 6 * 64 + 4 * 8 + 4"

definition no_error :: "string \<Rightarrow> error option" where
  "no_error p = None"

definition only_artifact :: "string \<Rightarrow> nat option" where
  "only_artifact p = (if p = linux_artifact then Some mode_0o644 else None)"

definition no_file :: "string \<Rightarrow> nat option" where
  "no_file p = None"

definition EACCES :: "string \<Rightarrow> error option" where
  "EACCES p = Some (Error (''EACCES: permission denied, access '' @ [CHR 0x27] @ p @ [CHR 0x27]))"

definition EPERM :: "string \<Rightarrow> error option" where
  "EPERM p = Some (Error (''EPERM: operation not permitted, chmod '' @ [CHR 0x27] @ p @ [CHR 0x27]))"

text \<open>The artifact present and readable; absent; present but unreadable; present but not ours to change.\<close>

definition fs_present :: fs where
  "fs_present = \<lparr>file_mode = only_artifact, access_error = no_error, chmod_error = no_error\<rparr>"

definition fs_absent :: fs where
  "fs_absent = \<lparr>file_mode = no_file, access_error = no_error, chmod_error = no_error\<rparr>"

definition fs_unreadable :: fs where
  "fs_unreadable = \<lparr>file_mode = only_artifact, access_error = EACCES, chmod_error = no_error\<rparr>"

definition fs_chmod_denied :: fs where
  "fs_chmod_denied = \<lparr>file_mode = only_artifact, access_error = no_error, chmod_error = EPERM\<rparr>"

text \<open>
  A native module with one function that returns, one that throws, and one value that
  is no function. Primitives are integers, objects are numbered. A function of the
  native module that returns a primitive gives the new object when it is constructed.
\<close>

type_synonym example_function = "(int, nat, error) js_function"

definition getAvailableApis :: example_function where
  "getAvailableApis how args =
     (case how of Call this \<Rightarrow> returns (Primitive 7) | Construct new_object \<Rightarrow> returns (Object new_object))"

definition openStream :: example_function where
  "openStream how args = throw (Error ''RtAudio: no device'')"

definition example_module :: "(string \<times> (example_function, unit) native_value) list" where
  "example_module =
     [(''getAvailableApis'', Function getAvailableApis),
      (''openStream'', Function openStream),
      (''napiVersion'', Other ())]"

definition example_require :: "string \<Rightarrow> error + (string \<times> (example_function, unit) native_value) list" where
  "example_require p = Inr example_module"

text \<open>
  A class of the native module, as node-addon-api exports one: constructed, it wraps
  the native encoder in the new object and returns it; called without \<^verbatim>\<open>new\<close>, it
  throws a \<^verbatim>\<open>TypeError\<close>.
\<close>

definition class_call_error :: error where
  "class_call_error =
     Error (''Class constructors cannot be invoked without '' @ [CHR 0x27] @ ''new'' @ [CHR 0x27])"

definition OpusEncoder :: example_function where
  "OpusEncoder how args =
     (case how of
        Call this \<Rightarrow> throw class_call_error
      | Construct new_object \<Rightarrow> returns (Object new_object))"

definition example_class_module :: "(string \<times> (example_function, unit) native_value) list" where
  "example_class_module = [(''OpusEncoder'', Function OpusEncoder)]"

section \<open>Properties\<close>

subsection \<open>The platform table and \<^verbatim>\<open>getBinaryPath\<close>\<close>

lemma PLATFORM_MAP_folder: "obj_get PLATFORM_MAP k = Some d \<Longrightarrow> d = k"
  by (auto simp: obj_get_def PLATFORM_MAP_def split: if_splits)

lemma PLATFORM_MAP_truthy: "obj_get PLATFORM_MAP k = Some d \<Longrightarrow> d \<noteq> []"
  by (auto simp: obj_get_def PLATFORM_MAP_def split: if_splits)

lemma PLATFORM_MAP_missing:
  "k \<notin> set (obj_keys PLATFORM_MAP) \<longleftrightarrow> obj_get PLATFORM_MAP k = None"
  by (simp add: obj_get_def obj_keys_def map_of_eq_None_iff)

lemma getBinaryPath_supported:
  assumes "obj_get PLATFORM_MAP (platform_key h) = Some d"
  shows "getBinaryPath h =
           (Inr (path_join h [dirname h, ''prebuilds'', d, ''build'', ''Release'', ''audify.node'']),
            [ConsoleLog [Text (''[Audify-JS-Plus] Detecting platform: '' @ platform_key h)],
             ConsoleLog [Text (''[Audify-JS-Plus] Binary path: '' @
                 path_join h [dirname h, ''prebuilds'', d, ''build'', ''Release'', ''audify.node''])]])"
proof -
  have "d \<noteq> []" using assms by (rule PLATFORM_MAP_truthy)
  with assms show ?thesis
    by (simp add: getBinaryPath_def bind_def console_log_def returns_def Let_def)
qed

lemma getBinaryPath_unsupported:
  assumes "obj_get PLATFORM_MAP (platform_key h) = None"
  shows "getBinaryPath h =
           (Inl (Error (unsupported_message (platform_key h))),
            [ConsoleLog [Text (''[Audify-JS-Plus] Detecting platform: '' @ platform_key h)]])"
  using assms
  by (simp add: getBinaryPath_def bind_def console_log_def throw_def Let_def)

lemma sublist_join: "k \<in> set xs \<Longrightarrow> sublist k (join sep xs)"
proof (induction sep xs rule: join.induct)
  case (1 sep)
  then show ?case by simp
next
  case (2 sep x)
  then show ?case by simp
next
  case (3 sep x y ys)
  show ?case
  proof (cases "k = x")
    case True
    then show ?thesis by simp
  next
    case False
    with 3 have "sublist k (join sep (y # ys))" by simp
    then obtain ps ss where "join sep (y # ys) = ps @ k @ ss"
      by (auto simp: sublist_def)
    then have "join sep (x # y # ys) = (x @ sep @ ps) @ k @ ss" by simp
    then show ?thesis unfolding sublist_def by blast
  qed
qed

lemma unsupported_message_names_key: "sublist key (unsupported_message key)"
  unfolding unsupported_message_def by (rule sublist_appendI)

lemma unsupported_message_lists_keys:
  assumes "k \<in> set (obj_keys PLATFORM_MAP)"
  shows "sublist k (unsupported_message key)"
proof -
  from assms obtain ps ss where "join '', '' (obj_keys PLATFORM_MAP) = ps @ k @ ss"
    using sublist_join[of k "obj_keys PLATFORM_MAP" "'', ''"] by (auto simp: sublist_def)
  then have "unsupported_message key =
      (''[Audify-JS-Plus] Unsupported platform: '' @ key @ ''. '' @ ''Supported platforms: '' @ ps) @ k @ ss"
    by (simp add: unsupported_message_def)
  then show ?thesis unfolding sublist_def by blast
qed

lemma linux_x64_key: "obj_get PLATFORM_MAP (platform_key linux_x64) = Some ''linux-x64''"
  by (simp add: obj_get_def PLATFORM_MAP_def platform_key_def linux_x64_def)

lemma freebsd_x64_key: "platform_key freebsd_x64 \<notin> set (obj_keys PLATFORM_MAP)"
  by (simp add: obj_keys_def PLATFORM_MAP_def platform_key_def freebsd_x64_def)

lemma linux_x64_path:
  "path_join linux_x64 [dirname linux_x64, ''prebuilds'', ''linux-x64'', ''build'', ''Release'', ''audify.node'']
     = linux_artifact"
  by (simp add: path_join_def path_sep_def linux_x64_def linux_artifact_def)

text \<open>Whatever \<^verbatim>\<open>__dirname\<close> is, the joined path ends in the separator and the last four segments.\<close>

lemma path_join_artifact:
  assumes "folder \<noteq> []"
  shows "\<exists>pre. path_join h [d, ''prebuilds'', folder, ''build'', ''Release'', ''audify.node''] =
           pre @ path_sep h @ folder @ path_sep h @ ''build'' @ path_sep h @ ''Release'' @
           path_sep h @ ''audify.node''"
proof (cases "d = []")
  case True
  with assms have "path_join h [d, ''prebuilds'', folder, ''build'', ''Release'', ''audify.node''] =
      ''prebuilds'' @ path_sep h @ folder @ path_sep h @ ''build'' @ path_sep h @ ''Release'' @
      path_sep h @ ''audify.node''"
    by (simp add: path_join_def path_sep_def)
  then show ?thesis by blast
next
  case False
  show ?thesis
  proof (cases "[last d] = path_sep h")
    case True
    with False assms
    have "path_join h [d, ''prebuilds'', folder, ''build'', ''Release'', ''audify.node''] =
        (d @ ''prebuilds'') @ path_sep h @ folder @ path_sep h @ ''build'' @ path_sep h @ ''Release'' @
        path_sep h @ ''audify.node''"
      by (simp add: path_join_def)
    then show ?thesis by blast
  next
    case nosep: False
    with False assms
    have "path_join h [d, ''prebuilds'', folder, ''build'', ''Release'', ''audify.node''] =
        (d @ path_sep h @ ''prebuilds'') @ path_sep h @ folder @ path_sep h @ ''build'' @ path_sep h @
        ''Release'' @ path_sep h @ ''audify.node''"
      by (simp add: path_join_def)
    then show ?thesis by blast
  qed
qed

lemma freebsd_x64_message:
  "unsupported_message (platform_key freebsd_x64) =
     ''[Audify-JS-Plus] Unsupported platform: freebsd-x64. Supported platforms: win32-x64, win32-ia32, win32-arm64, darwin-x64, darwin-arm64, linux-x64, linux-arm64, linux-arm''"
  by (simp add: unsupported_message_def platform_key_def freebsd_x64_def obj_keys_def PLATFORM_MAP_def)

text \<open>
  Claim C1. For every key of the platform table, \<^verbatim>\<open>getBinaryPath\<close> returns the path
  \<^verbatim>\<open>__dirname/prebuilds/<folder>/build/Release/audify.node\<close>, which ends in the mapped
  folder followed by the segments \<^verbatim>\<open>build\<close>, \<^verbatim>\<open>Release\<close>, \<^verbatim>\<open>audify.node\<close> (joined by
  the separator of the platform; off Windows that is the text
  \<^verbatim>\<open>/<folder>/build/Release/audify.node\<close>). For every key that is not in the table it
  throws an error whose message names the attempted key and every supported key.
\<close>

theorem getBinaryPath_resolves:
  "(\<forall>folder. obj_get PLATFORM_MAP (platform_key h) = Some folder \<longrightarrow>
      (\<exists>p. fst (getBinaryPath h) = Inr p \<and>
           p = path_join h [dirname h, ''prebuilds'', folder, ''build'', ''Release'', ''audify.node''] \<and>
           suffix (path_sep h @ folder @ path_sep h @ ''build'' @ path_sep h @ ''Release'' @
                   path_sep h @ ''audify.node'') p \<and>
           (platform h \<noteq> ''win32'' \<longrightarrow> suffix (''/'' @ folder @ ''/build/Release/audify.node'') p)))
   \<and> (platform_key h \<notin> set (obj_keys PLATFORM_MAP) \<longrightarrow>
      (\<exists>msg. fst (getBinaryPath h) = Inl (Error msg) \<and>
           msg = ''[Audify-JS-Plus] Unsupported platform: '' @ platform_key h @
                 ''. Supported platforms: '' @ join '', '' (obj_keys PLATFORM_MAP) \<and>
           sublist (platform_key h) msg \<and>
           (\<forall>k \<in> set (obj_keys PLATFORM_MAP). sublist k msg)))"
proof (intro conjI allI impI)
  fix folder
  assume a: "obj_get PLATFORM_MAP (platform_key h) = Some folder"
  let ?p = "path_join h [dirname h, ''prebuilds'', folder, ''build'', ''Release'', ''audify.node'']"
  have 1: "fst (getBinaryPath h) = Inr ?p"
    by (simp add: getBinaryPath_supported[OF a])
  have "folder \<noteq> []" using a by (rule PLATFORM_MAP_truthy)
  then obtain pre where pre: "?p = pre @ path_sep h @ folder @ path_sep h @ ''build'' @ path_sep h @
      ''Release'' @ path_sep h @ ''audify.node''"
    using path_join_artifact[of folder h "dirname h"] by blast
  have 2: "suffix (path_sep h @ folder @ path_sep h @ ''build'' @ path_sep h @ ''Release'' @
                   path_sep h @ ''audify.node'') ?p"
    unfolding pre by (rule suffixI) (rule refl)
  have 3: "platform h \<noteq> ''win32'' \<longrightarrow> suffix (''/'' @ folder @ ''/build/Release/audify.node'') ?p"
  proof
    assume "platform h \<noteq> ''win32''"
    then have "?p = pre @ ''/'' @ folder @ ''/build/Release/audify.node''"
      using pre by (simp add: path_sep_def)
    then show "suffix (''/'' @ folder @ ''/build/Release/audify.node'') ?p"
      by (simp only: suffix_def) blast
  qed
  from 1 2 3 show "\<exists>p. fst (getBinaryPath h) = Inr p \<and> p = ?p \<and>
      suffix (path_sep h @ folder @ path_sep h @ ''build'' @ path_sep h @ ''Release'' @
                   path_sep h @ ''audify.node'') p \<and>
      (platform h \<noteq> ''win32'' \<longrightarrow> suffix (''/'' @ folder @ ''/build/Release/audify.node'') p)"
    by blast
next
  assume a: "platform_key h \<notin> set (obj_keys PLATFORM_MAP)"
  then have n: "obj_get PLATFORM_MAP (platform_key h) = None"
    by (simp add: PLATFORM_MAP_missing)
  let ?msg = "unsupported_message (platform_key h)"
  have 1: "fst (getBinaryPath h) = Inl (Error ?msg)"
    by (simp add: getBinaryPath_unsupported[OF n])
  have 2: "?msg = ''[Audify-JS-Plus] Unsupported platform: '' @ platform_key h @
                 ''. Supported platforms: '' @ join '', '' (obj_keys PLATFORM_MAP)"
    by (simp add: unsupported_message_def)
  have 3: "sublist (platform_key h) ?msg" by (rule unsupported_message_names_key)
  have 4: "\<forall>k \<in> set (obj_keys PLATFORM_MAP). sublist k ?msg"
    by (simp add: unsupported_message_lists_keys)
  from 1 2 3 4 show "\<exists>msg. fst (getBinaryPath h) = Inl (Error msg) \<and>
           msg = ''[Audify-JS-Plus] Unsupported platform: '' @ platform_key h @
                 ''. Supported platforms: '' @ join '', '' (obj_keys PLATFORM_MAP) \<and>
           sublist (platform_key h) msg \<and>
           (\<forall>k \<in> set (obj_keys PLATFORM_MAP). sublist k msg)"
    by metis
qed

theorem getBinaryPath_resolves_witness:
  "obj_get PLATFORM_MAP (platform_key linux_x64) = Some ''linux-x64'' \<and>
   fst (getBinaryPath linux_x64) = Inr ''/app/prebuilds/linux-x64/build/Release/audify.node'' \<and>
   platform_key freebsd_x64 \<notin> set (obj_keys PLATFORM_MAP) \<and>
   fst (getBinaryPath freebsd_x64) = Inl (Error
     ''[Audify-JS-Plus] Unsupported platform: freebsd-x64. Supported platforms: win32-x64, win32-ia32, win32-arm64, darwin-x64, darwin-arm64, linux-x64, linux-arm64, linux-arm'')"
proof -
  note t1 = getBinaryPath_resolves[of linux_x64, THEN conjunct1, rule_format, OF linux_x64_key]
  note t2 = getBinaryPath_resolves[of freebsd_x64, THEN conjunct2, rule_format, OF freebsd_x64_key]
  have m: "''[Audify-JS-Plus] Unsupported platform: '' @ platform_key freebsd_x64 @
                 ''. Supported platforms: '' @ join '', '' (obj_keys PLATFORM_MAP) =
     ''[Audify-JS-Plus] Unsupported platform: freebsd-x64. Supported platforms: win32-x64, win32-ia32, win32-arm64, darwin-x64, darwin-arm64, linux-x64, linux-arm64, linux-arm''"
    using freebsd_x64_message by (simp add: unsupported_message_def)
  from t1 linux_x64_path
  have a: "fst (getBinaryPath linux_x64) = Inr ''/app/prebuilds/linux-x64/build/Release/audify.node''"
    by (auto simp: linux_artifact_def)
  from t2 m have b: "fst (getBinaryPath freebsd_x64) = Inl (Error
     ''[Audify-JS-Plus] Unsupported platform: freebsd-x64. Supported platforms: win32-x64, win32-ia32, win32-arm64, darwin-x64, darwin-arm64, linux-x64, linux-arm64, linux-arm'')"
    by auto
  from a b linux_x64_key freebsd_x64_key show ?thesis by blast
qed

subsection \<open>The constant tables\<close>

text \<open>
  Claim C7. The AUDIO application mode of the codec is 2049. The six sample formats
  SINT8, SINT16, SINT24, SINT32, FLOAT32 and FLOAT64 are, in this order, the powers of
  two 1, 2, 4, 8, 16 and 32, pairwise distinct, and FLOAT64 is 32.
\<close>

theorem constant_tables_exact:
  "obj_get OpusApplication ''OPUS_APPLICATION_AUDIO'' = Some 2049 \<and>
   obj_keys RtAudioFormat =
     [''RTAUDIO_FORMAT_SINT8'', ''RTAUDIO_FORMAT_SINT16'', ''RTAUDIO_FORMAT_SINT24'',
      ''RTAUDIO_FORMAT_SINT32'', ''RTAUDIO_FORMAT_FLOAT32'', ''RTAUDIO_FORMAT_FLOAT64''] \<and>
   map snd RtAudioFormat = [1, 2, 4, 8, 16, 32] \<and>
   map snd RtAudioFormat = [2 ^ 0, 2 ^ 1, 2 ^ 2, 2 ^ 3, 2 ^ 4, 2 ^ 5] \<and>
   distinct (map snd RtAudioFormat) \<and>
   obj_get RtAudioFormat ''RTAUDIO_FORMAT_FLOAT64'' = Some 32"
  by (simp add: obj_get_def obj_keys_def OpusApplication_def RtAudioFormat_def)

subsection \<open>\<^verbatim>\<open>verifyBinary\<close>\<close>

lemma verifyBinary_absent:
  "\<not> existsSync f p \<Longrightarrow>
   verifyBinary f p = (Inr False, [ConsoleError [Text (''[Audify-JS-Plus] Binary not found: '' @ p)]])"
  by (simp add: verifyBinary_def try_catch_def bind_def console_error_def returns_def)

lemma verifyBinary_unreadable:
  "existsSync f p \<Longrightarrow> access_error f p = Some e \<Longrightarrow>
   verifyBinary f p =
     (Inr False, [ConsoleError [Text ''[Audify-JS-Plus] Binary verification failed:'', Text (message e)]])"
  by (auto simp: verifyBinary_def try_catch_def bind_def console_error_def returns_def throw_def
      accessSync_R_OK_def existsSync_def)

lemma verifyBinary_readable:
  "existsSync f p \<Longrightarrow> access_error f p = None \<Longrightarrow>
   verifyBinary f p = (Inr True, [ConsoleLog [Text (''[Audify-JS-Plus] Binary verified: '' @ p)]])"
  by (auto simp: verifyBinary_def try_catch_def bind_def console_log_def returns_def
      accessSync_R_OK_def existsSync_def)

lemma verifyBinary_result: "fst (verifyBinary f p) = Inr (existsSync f p \<and> readable f p)"
proof (cases "existsSync f p")
  case False
  then show ?thesis by (simp add: verifyBinary_absent)
next
  case True
  then show ?thesis
    by (cases "access_error f p") (simp_all add: verifyBinary_unreadable verifyBinary_readable readable_def)
qed

lemma accessSync_raises:
  "fst (accessSync_R_OK f p) = Inl e \<Longrightarrow> \<not> (existsSync f p \<and> readable f p)"
  by (auto simp: accessSync_R_OK_def existsSync_def readable_def throw_def returns_def
      split: option.splits)

lemma fs_present_artifact: "existsSync fs_present linux_artifact \<and> readable fs_present linux_artifact"
  by (simp add: existsSync_def readable_def fs_present_def only_artifact_def no_error_def)

lemma fs_absent_artifact: "\<not> existsSync fs_absent linux_artifact"
  by (simp add: existsSync_def fs_absent_def no_file_def)

lemma fs_unreadable_artifact:
  "existsSync fs_unreadable linux_artifact \<and>
   access_error fs_unreadable linux_artifact =
     Some (Error (''EACCES: permission denied, access '' @ [CHR 0x27] @ linux_artifact @ [CHR 0x27]))"
  by (simp add: existsSync_def fs_unreadable_def only_artifact_def EACCES_def)

lemma fs_unreadable_access:
  "fst (accessSync_R_OK fs_unreadable linux_artifact) =
     Inl (Error (''EACCES: permission denied, access '' @ [CHR 0x27] @ linux_artifact @ [CHR 0x27]))"
  by (simp add: accessSync_R_OK_def fs_unreadable_def only_artifact_def EACCES_def throw_def)

text \<open>
  Claim C5, as stated: a missing path and an unreadable path make \<^verbatim>\<open>verifyBinary\<close> fail
  with two distinct error kinds. On the code both give the same plain \<^verbatim>\<open>false\<close>, and
  nothing is thrown.
\<close>

theorem verifyBinary_no_error_kinds_counterexample:
  "\<not> existsSync fs_absent linux_artifact \<and>
   existsSync fs_unreadable linux_artifact \<and> \<not> readable fs_unreadable linux_artifact \<and>
   fst (verifyBinary fs_absent linux_artifact) = Inr False \<and>
   fst (verifyBinary fs_unreadable linux_artifact) = Inr False"
  using fs_absent_artifact fs_unreadable_artifact
  by (simp add: verifyBinary_result readable_def)

text \<open>
  Claim C5, amended. For every path, \<^verbatim>\<open>verifyBinary\<close> returns \<^verbatim>\<open>true\<close> if and only if
  the path exists and the file is readable, and \<^verbatim>\<open>false\<close> otherwise; it throws nothing
  and returns no error kind. The two failures differ in the console output only: a
  missing path logs \<^verbatim>\<open>Binary not found:\<close> with the path, an unreadable one logs
  \<^verbatim>\<open>Binary verification failed:\<close> with the message of the error that the readability
  check threw.
\<close>

theorem verifyBinary_iff_exists_readable:
  "fst (verifyBinary f p) = Inr (existsSync f p \<and> readable f p) \<and>
   (\<not> existsSync f p \<longrightarrow>
      snd (verifyBinary f p) = [ConsoleError [Text (''[Audify-JS-Plus] Binary not found: '' @ p)]]) \<and>
   (\<forall>e. existsSync f p \<and> access_error f p = Some e \<longrightarrow>
      snd (verifyBinary f p) =
        [ConsoleError [Text ''[Audify-JS-Plus] Binary verification failed:'', Text (message e)]])"
  by (simp add: verifyBinary_result verifyBinary_absent verifyBinary_unreadable)

theorem verifyBinary_iff_exists_readable_witness:
  "fst (verifyBinary fs_present linux_artifact) = Inr True \<and>
   \<not> existsSync fs_absent linux_artifact \<and>
   verifyBinary fs_absent linux_artifact =
     (Inr False, [ConsoleError [Text ''[Audify-JS-Plus] Binary not found: /app/prebuilds/linux-x64/build/Release/audify.node'']]) \<and>
   existsSync fs_unreadable linux_artifact \<and>
   verifyBinary fs_unreadable linux_artifact =
     (Inr False, [ConsoleError [Text ''[Audify-JS-Plus] Binary verification failed:'',
        Text (''EACCES: permission denied, access '' @ [CHR 0x27] @
              ''/app/prebuilds/linux-x64/build/Release/audify.node'' @ [CHR 0x27])]])"
proof -
  note t1 = verifyBinary_iff_exists_readable[of fs_present linux_artifact, THEN conjunct1]
  note t2 = verifyBinary_iff_exists_readable[of fs_absent linux_artifact]
  note t3 = verifyBinary_iff_exists_readable[of fs_unreadable linux_artifact]
  have a: "fst (verifyBinary fs_present linux_artifact) = Inr True"
    using t1 fs_present_artifact by simp
  have b: "verifyBinary fs_absent linux_artifact =
     (Inr False, [ConsoleError [Text ''[Audify-JS-Plus] Binary not found: /app/prebuilds/linux-x64/build/Release/audify.node'']])"
    using t2 fs_absent_artifact by (simp add: prod_eq_iff linux_artifact_def)
  have c: "verifyBinary fs_unreadable linux_artifact =
     (Inr False, [ConsoleError [Text ''[Audify-JS-Plus] Binary verification failed:'',
        Text (''EACCES: permission denied, access '' @ [CHR 0x27] @
              ''/app/prebuilds/linux-x64/build/Release/audify.node'' @ [CHR 0x27])]])"
    using t3 fs_unreadable_artifact by (simp add: prod_eq_iff readable_def linux_artifact_def)
  from a b c fs_absent_artifact fs_unreadable_artifact show ?thesis by blast
qed

text \<open>
  Claim C10. For every path and every file system, \<^verbatim>\<open>verifyBinary\<close> returns a boolean
  and throws nothing; when the readability check throws, the handler catches the error
  and the function returns \<^verbatim>\<open>false\<close>.
\<close>

theorem verifyBinary_total:
  "(\<exists>b. fst (verifyBinary f p) = Inr b) \<and>
   (\<forall>e. fst (accessSync_R_OK f p) = Inl e \<longrightarrow> fst (verifyBinary f p) = Inr False)"
proof (intro conjI allI impI)
  show "\<exists>b. fst (verifyBinary f p) = Inr b"
    using verifyBinary_result[of f p] by blast
next
  fix e
  assume "fst (accessSync_R_OK f p) = Inl e"
  then have "\<not> (existsSync f p \<and> readable f p)" by (rule accessSync_raises)
  then show "fst (verifyBinary f p) = Inr False" by (simp add: verifyBinary_result)
qed

theorem verifyBinary_total_witness:
  "fst (accessSync_R_OK fs_unreadable linux_artifact) =
     Inl (Error (''EACCES: permission denied, access '' @ [CHR 0x27] @ linux_artifact @ [CHR 0x27])) \<and>
   fst (verifyBinary fs_unreadable linux_artifact) = Inr False"
  using verifyBinary_total[of fs_unreadable linux_artifact, THEN conjunct2, rule_format,
      OF fs_unreadable_access] fs_unreadable_access
  by blast

subsection \<open>\<^verbatim>\<open>healthCheck\<close>\<close>

lemma healthCheck_supported:
  assumes "obj_get PLATFORM_MAP (platform_key h) = Some folder"
  shows "fst (healthCheck h f) =
     (let binaryPath = path_join h [dirname h, ''prebuilds'', folder, ''build'', ''Release'', ''audify.node''];
          exists = (existsSync f binaryPath \<and> readable f binaryPath)
      in Inr (JObject
           [(''status'', JString (if exists then ''healthy'' else ''unhealthy'')),
            (''platform'', JString (platform_key h)),
            (''binaryPath'', JString binaryPath),
            (''binaryExists'', JBoolean exists)]))"
proof -
  let ?p = "path_join h [dirname h, ''prebuilds'', folder, ''build'', ''Release'', ''audify.node'']"
  obtain out where vb: "verifyBinary f ?p = (Inr (existsSync f ?p \<and> readable f ?p), out)"
    using verifyBinary_result[of f ?p] by (cases "verifyBinary f ?p") simp
  show ?thesis
    by (simp add: healthCheck_def getBinaryPath_supported[OF assms] vb bind_def try_catch_def
        returns_def Let_def)
qed

lemma healthCheck_unsupported:
  assumes "obj_get PLATFORM_MAP (platform_key h) = None"
  shows "fst (healthCheck h f) =
     Inr (JObject
       [(''status'', JString ''error''),
        (''error'', JString (unsupported_message (platform_key h))),
        (''platform'', JString (platform_key h))])"
  by (simp add: healthCheck_def getBinaryPath_unsupported[OF assms] bind_def try_catch_def returns_def)

lemma unsupported_message_nonempty: "unsupported_message key \<noteq> []"
  by (simp add: unsupported_message_def)

lemma linux_x64_supported: "platform_key linux_x64 \<in> set (obj_keys PLATFORM_MAP)"
  using linux_x64_key PLATFORM_MAP_missing[of "platform_key linux_x64"] by auto

lemma linux_x64_getBinaryPath: "fst (getBinaryPath linux_x64) = Inr linux_artifact"
  using getBinaryPath_supported[OF linux_x64_key] linux_x64_path by simp

text \<open>
  Claim C2. For every platform, architecture and file system, \<^verbatim>\<open>healthCheck\<close> throws
  nothing and returns a report. When the platform key is supported, the status is
  \<^verbatim>\<open>healthy\<close> if the artifact exists and is readable and \<^verbatim>\<open>unhealthy\<close> if it is absent
  or unreadable. When the key is not supported, the status is \<^verbatim>\<open>error\<close> and the report
  carries a non-empty error message.
\<close>

theorem healthCheck_never_raises:
  "\<exists>report. fst (healthCheck h f) = Inr report \<and>
     (platform_key h \<in> set (obj_keys PLATFORM_MAP) \<longrightarrow>
        (\<exists>p. fst (getBinaryPath h) = Inr p \<and>
           (existsSync f p \<and> readable f p \<longrightarrow>
              json_get report ''status'' = Some (JString ''healthy'')) \<and>
           (\<not> existsSync f p \<or> \<not> readable f p \<longrightarrow>
              json_get report ''status'' = Some (JString ''unhealthy'')))) \<and>
     (platform_key h \<notin> set (obj_keys PLATFORM_MAP) \<longrightarrow>
        json_get report ''status'' = Some (JString ''error'') \<and>
        (\<exists>msg. json_get report ''error'' = Some (JString msg) \<and> msg \<noteq> []))"
proof (cases "obj_get PLATFORM_MAP (platform_key h)")
  case None
  then have k: "platform_key h \<notin> set (obj_keys PLATFORM_MAP)"
    by (simp add: PLATFORM_MAP_missing)
  show ?thesis
    using k unsupported_message_nonempty
    by (simp add: healthCheck_unsupported[OF None] json_get_def obj_get_def)
next
  case (Some folder)
  then have k: "platform_key h \<in> set (obj_keys PLATFORM_MAP)"
    using PLATFORM_MAP_missing[of "platform_key h"] by auto
  have g: "fst (getBinaryPath h) =
      Inr (path_join h [dirname h, ''prebuilds'', folder, ''build'', ''Release'', ''audify.node''])"
    by (simp add: getBinaryPath_supported[OF Some])
  show ?thesis
    using k g
    by (auto simp: healthCheck_supported[OF Some] json_get_def obj_get_def Let_def)
qed

theorem healthCheck_never_raises_witness:
  "platform_key linux_x64 \<in> set (obj_keys PLATFORM_MAP) \<and>
   existsSync fs_present linux_artifact \<and> readable fs_present linux_artifact \<and>
   (\<exists>report. fst (healthCheck linux_x64 fs_present) = Inr report \<and>
      json_get report ''status'' = Some (JString ''healthy'')) \<and>
   \<not> existsSync fs_absent linux_artifact \<and>
   (\<exists>report. fst (healthCheck linux_x64 fs_absent) = Inr report \<and>
      json_get report ''status'' = Some (JString ''unhealthy'')) \<and>
   platform_key freebsd_x64 \<notin> set (obj_keys PLATFORM_MAP) \<and>
   (\<exists>report. fst (healthCheck freebsd_x64 fs_absent) = Inr report \<and>
      json_get report ''status'' = Some (JString ''error''))"
proof -
  have a: "\<exists>report. fst (healthCheck linux_x64 fs_present) = Inr report \<and>
      json_get report ''status'' = Some (JString ''healthy'')"
    using healthCheck_never_raises[of linux_x64 fs_present] linux_x64_supported
      linux_x64_getBinaryPath fs_present_artifact
    by auto
  have b: "\<exists>report. fst (healthCheck linux_x64 fs_absent) = Inr report \<and>
      json_get report ''status'' = Some (JString ''unhealthy'')"
    using healthCheck_never_raises[of linux_x64 fs_absent] linux_x64_supported
      linux_x64_getBinaryPath fs_absent_artifact
    by auto
  have c: "\<exists>report. fst (healthCheck freebsd_x64 fs_absent) = Inr report \<and>
      json_get report ''status'' = Some (JString ''error'')"
    using healthCheck_never_raises[of freebsd_x64 fs_absent] freebsd_x64_key
    by auto
  from a b c linux_x64_supported fs_present_artifact fs_absent_artifact freebsd_x64_key
  show ?thesis by blast
qed

text \<open>
  Claim C3, as stated: the report of a healthy artifact has a field \<^verbatim>\<open>artifactPath\<close>
  and a field \<^verbatim>\<open>artifactExists\<close> that is \<^verbatim>\<open>true\<close>. On the code the report of the healthy
  Linux host has neither field: they are called \<^verbatim>\<open>binaryPath\<close> and \<^verbatim>\<open>binaryExists\<close>.
\<close>

theorem healthCheck_field_names_counterexample:
  "fst (healthCheck linux_x64 fs_present) =
     Inr (JObject
       [(''status'', JString ''healthy''),
        (''platform'', JString ''linux-x64''),
        (''binaryPath'', JString ''/app/prebuilds/linux-x64/build/Release/audify.node''),
        (''binaryExists'', JBoolean True)]) \<and>
   json_get (JObject
       [(''status'', JString ''healthy''),
        (''platform'', JString ''linux-x64''),
        (''binaryPath'', JString ''/app/prebuilds/linux-x64/build/Release/audify.node''),
        (''binaryExists'', JBoolean True)]) ''artifactExists'' = None \<and>
   json_get (JObject
       [(''status'', JString ''healthy''),
        (''platform'', JString ''linux-x64''),
        (''binaryPath'', JString ''/app/prebuilds/linux-x64/build/Release/audify.node''),
        (''binaryExists'', JBoolean True)]) ''artifactPath'' = None"
proof -
  have "fst (healthCheck linux_x64 fs_present) =
     Inr (JObject
       [(''status'', JString ''healthy''),
        (''platform'', JString (platform_key linux_x64)),
        (''binaryPath'', JString linux_artifact),
        (''binaryExists'', JBoolean True)])"
    using healthCheck_supported[OF linux_x64_key, of fs_present] fs_present_artifact
    by (simp add: linux_x64_path Let_def)
  then show ?thesis
    by (simp add: platform_key_def linux_x64_def linux_artifact_def json_get_def obj_get_def)
qed

text \<open>
  Claim C3, amended. Every report of \<^verbatim>\<open>healthCheck\<close> has one of two shapes. For a
  supported platform it is \<^verbatim>\<open>{status, platform, binaryPath, binaryExists}\<close>:
  \<^verbatim>\<open>binaryPath\<close> holds the resolved path, \<^verbatim>\<open>binaryExists\<close> is the boolean result of the
  verification, and the status is \<^verbatim>\<open>healthy\<close> exactly when \<^verbatim>\<open>binaryExists\<close> is
  \<^verbatim>\<open>true\<close>. For an unsupported platform it is \<^verbatim>\<open>{status, error, platform}\<close> with status
  \<^verbatim>\<open>error\<close>, and has no path and no boolean field.
\<close>

theorem healthCheck_report_shape:
  "(\<forall>folder. obj_get PLATFORM_MAP (platform_key h) = Some folder \<longrightarrow>
      fst (healthCheck h f) =
        (let binaryPath = path_join h [dirname h, ''prebuilds'', folder, ''build'', ''Release'', ''audify.node''];
             exists = (existsSync f binaryPath \<and> readable f binaryPath)
         in Inr (JObject
              [(''status'', JString (if exists then ''healthy'' else ''unhealthy'')),
               (''platform'', JString (platform_key h)),
               (''binaryPath'', JString binaryPath),
               (''binaryExists'', JBoolean exists)]))) \<and>
   (platform_key h \<notin> set (obj_keys PLATFORM_MAP) \<longrightarrow>
      fst (healthCheck h f) =
        Inr (JObject
          [(''status'', JString ''error''),
           (''error'', JString (unsupported_message (platform_key h))),
           (''platform'', JString (platform_key h))]))"
proof (intro conjI allI impI)
  fix folder
  assume "obj_get PLATFORM_MAP (platform_key h) = Some folder"
  then show "fst (healthCheck h f) =
        (let binaryPath = path_join h [dirname h, ''prebuilds'', folder, ''build'', ''Release'', ''audify.node''];
             exists = (existsSync f binaryPath \<and> readable f binaryPath)
         in Inr (JObject
              [(''status'', JString (if exists then ''healthy'' else ''unhealthy'')),
               (''platform'', JString (platform_key h)),
               (''binaryPath'', JString binaryPath),
               (''binaryExists'', JBoolean exists)]))"
    by (rule healthCheck_supported)
next
  assume "platform_key h \<notin> set (obj_keys PLATFORM_MAP)"
  then have "obj_get PLATFORM_MAP (platform_key h) = None"
    by (simp add: PLATFORM_MAP_missing)
  then show "fst (healthCheck h f) =
        Inr (JObject
          [(''status'', JString ''error''),
           (''error'', JString (unsupported_message (platform_key h))),
           (''platform'', JString (platform_key h))])"
    by (rule healthCheck_unsupported)
qed

theorem healthCheck_report_shape_witness:
  "obj_get PLATFORM_MAP (platform_key linux_x64) = Some ''linux-x64'' \<and>
   fst (healthCheck linux_x64 fs_unreadable) =
     Inr (JObject
       [(''status'', JString ''unhealthy''),
        (''platform'', JString ''linux-x64''),
        (''binaryPath'', JString ''/app/prebuilds/linux-x64/build/Release/audify.node''),
        (''binaryExists'', JBoolean False)]) \<and>
   platform_key freebsd_x64 \<notin> set (obj_keys PLATFORM_MAP) \<and>
   fst (healthCheck freebsd_x64 fs_unreadable) =
     Inr (JObject
       [(''status'', JString ''error''),
        (''error'', JString ''[Audify-JS-Plus] Unsupported platform: freebsd-x64. Supported platforms: win32-x64, win32-ia32, win32-arm64, darwin-x64, darwin-arm64, linux-x64, linux-arm64, linux-arm''),
        (''platform'', JString ''freebsd-x64'')])"
proof -
  note t1 = healthCheck_report_shape[of linux_x64 fs_unreadable, THEN conjunct1, rule_format, OF linux_x64_key]
  note t2 = healthCheck_report_shape[of freebsd_x64 fs_unreadable, THEN conjunct2, rule_format, OF freebsd_x64_key]
  have nr: "\<not> readable fs_unreadable linux_artifact"
    using fs_unreadable_artifact by (simp add: readable_def)
  have a: "fst (healthCheck linux_x64 fs_unreadable) =
     Inr (JObject
       [(''status'', JString ''unhealthy''),
        (''platform'', JString ''linux-x64''),
        (''binaryPath'', JString ''/app/prebuilds/linux-x64/build/Release/audify.node''),
        (''binaryExists'', JBoolean False)])"
    using t1 nr by (simp add: linux_x64_path Let_def) (simp add: platform_key_def linux_x64_def linux_artifact_def)
  have b: "fst (healthCheck freebsd_x64 fs_unreadable) =
     Inr (JObject
       [(''status'', JString ''error''),
        (''error'', JString ''[Audify-JS-Plus] Unsupported platform: freebsd-x64. Supported platforms: win32-x64, win32-ia32, win32-arm64, darwin-x64, darwin-arm64, linux-x64, linux-arm64, linux-arm''),
        (''platform'', JString ''freebsd-x64'')])"
    using t2 by (simp add: freebsd_x64_message) (simp add: platform_key_def freebsd_x64_def)
  from a b linux_x64_key freebsd_x64_key show ?thesis by blast
qed

subsection \<open>Loading the module\<close>

lemma loadNativeModule_unsupported:
  assumes "obj_get PLATFORM_MAP (platform_key h) = None"
  shows "fst (loadNativeModule req h f) = Inl (Error (unsupported_message (platform_key h)))"
  by (simp add: loadNativeModule_def getBinaryPath_unsupported[OF assms] bind_def)

lemma load_rawAudify_unsupported:
  assumes "obj_get PLATFORM_MAP (platform_key h) = None"
  shows "fst (load_rawAudify req h f) =
     Inl (Error ((if vscode_pid h then
                    ''[Audify-JS-Plus] Failed to initialize in VS Code extension. '' @
                    ''This might be due to missing native binaries or platform incompatibility. '' @
                    ''Original error: ''
                  else []) @ unsupported_message (platform_key h)))"
proof -
  obtain out where l: "loadNativeModule req h f = (Inl (Error (unsupported_message (platform_key h))), out)"
    using loadNativeModule_unsupported[OF assms, of req f] by (cases "loadNativeModule req h f") simp
  show ?thesis
    by (simp add: load_rawAudify_def l try_catch_def bind_def console_error_def throw_def)
qed

lemma require_index_unsupported:
  assumes "obj_get PLATFORM_MAP (platform_key h) = None"
  shows "fst (require_index req h f) =
     Inl (Error ((if vscode_pid h then
                    ''[Audify-JS-Plus] Failed to initialize in VS Code extension. '' @
                    ''This might be due to missing native binaries or platform incompatibility. '' @
                    ''Original error: ''
                  else []) @ unsupported_message (platform_key h)))"
proof -
  obtain out where l: "load_rawAudify req h f =
     (Inl (Error ((if vscode_pid h then
                    ''[Audify-JS-Plus] Failed to initialize in VS Code extension. '' @
                    ''This might be due to missing native binaries or platform incompatibility. '' @
                    ''Original error: ''
                  else []) @ unsupported_message (platform_key h))), out)"
    using load_rawAudify_unsupported[OF assms, of req f] by (cases "load_rawAudify req h f") simp
  show ?thesis
    unfolding require_index_def l by (simp add: bind_def)
qed

lemma sublist_append_left: "sublist xs ys \<Longrightarrow> sublist xs (zs @ ys)"
  by (auto simp: sublist_append)

lemma PLATFORM_MAP_eight: "length (obj_keys PLATFORM_MAP) = 8 \<and> distinct (obj_keys PLATFORM_MAP)"
  by (simp add: obj_keys_def PLATFORM_MAP_def)

text \<open>
  Claim C4, as stated: the platform table has exactly nine entries, all of them listed
  in the message. The table has eight, and the message of the FreeBSD host lists eight.
\<close>

theorem nine_supported_keys_counterexample:
  "length (obj_keys PLATFORM_MAP) \<noteq> 9 \<and>
   obj_keys PLATFORM_MAP =
     [''win32-x64'', ''win32-ia32'', ''win32-arm64'', ''darwin-x64'', ''darwin-arm64'',
      ''linux-x64'', ''linux-arm64'', ''linux-arm''] \<and>
   fst (require_index example_require freebsd_x64 fs_present) =
     Inl (Error ''[Audify-JS-Plus] Unsupported platform: freebsd-x64. Supported platforms: win32-x64, win32-ia32, win32-arm64, darwin-x64, darwin-arm64, linux-x64, linux-arm64, linux-arm'')"
proof -
  have n: "obj_get PLATFORM_MAP (platform_key freebsd_x64) = None"
    using freebsd_x64_key by (simp add: PLATFORM_MAP_missing)
  have v: "\<not> vscode_pid freebsd_x64" by (simp add: freebsd_x64_def)
  have "fst (require_index example_require freebsd_x64 fs_present) =
      Inl (Error (unsupported_message (platform_key freebsd_x64)))"
    using require_index_unsupported[OF n, of example_require fs_present] v by simp
  then show ?thesis
    by (simp add: freebsd_x64_message) (simp add: obj_keys_def PLATFORM_MAP_def)
qed

text \<open>
  Claim C4, amended. When the resolved platform key is unmapped, loading the module
  fails with an error whose message names the key and lists all eight supported keys:
  the platform table has exactly eight entries and every one of them appears in the
  message. Outside a VS Code extension host the message is the one thrown by
  \<^verbatim>\<open>getBinaryPath\<close>.
\<close>

theorem require_index_unsupported_lists_keys:
  "length (obj_keys PLATFORM_MAP) = 8 \<and> distinct (obj_keys PLATFORM_MAP) \<and>
   (platform_key h \<notin> set (obj_keys PLATFORM_MAP) \<longrightarrow>
      (\<exists>msg. fst (require_index req h f) = Inl (Error msg) \<and>
         sublist (platform_key h) msg \<and>
         (\<forall>k \<in> set (obj_keys PLATFORM_MAP). sublist k msg) \<and>
         (\<not> vscode_pid h \<longrightarrow> msg = unsupported_message (platform_key h))))"
proof (intro conjI impI)
  show "length (obj_keys PLATFORM_MAP) = 8" by (simp add: PLATFORM_MAP_eight)
  show "distinct (obj_keys PLATFORM_MAP)" by (simp add: PLATFORM_MAP_eight)
next
  assume "platform_key h \<notin> set (obj_keys PLATFORM_MAP)"
  then have n: "obj_get PLATFORM_MAP (platform_key h) = None"
    by (simp add: PLATFORM_MAP_missing)
  let ?pre = "if vscode_pid h then
                    ''[Audify-JS-Plus] Failed to initialize in VS Code extension. '' @
                    ''This might be due to missing native binaries or platform incompatibility. '' @
                    ''Original error: ''
                  else []"
  let ?msg = "?pre @ unsupported_message (platform_key h)"
  have 1: "fst (require_index req h f) = Inl (Error ?msg)"
    by (rule require_index_unsupported[OF n])
  have 2: "sublist (platform_key h) ?msg"
    by (rule sublist_append_left) (rule unsupported_message_names_key)
  have 3: "\<forall>k \<in> set (obj_keys PLATFORM_MAP). sublist k ?msg"
    by (intro ballI sublist_append_left unsupported_message_lists_keys)
  have 4: "\<not> vscode_pid h \<longrightarrow> ?msg = unsupported_message (platform_key h)"
    by simp
  from 1 2 3 4
  show "\<exists>msg. fst (require_index req h f) = Inl (Error msg) \<and>
         sublist (platform_key h) msg \<and>
         (\<forall>k \<in> set (obj_keys PLATFORM_MAP). sublist k msg) \<and>
         (\<not> vscode_pid h \<longrightarrow> msg = unsupported_message (platform_key h))"
    by blast
qed

theorem require_index_unsupported_lists_keys_witness:
  "platform_key freebsd_x64 \<notin> set (obj_keys PLATFORM_MAP) \<and>
   \<not> vscode_pid freebsd_x64 \<and>
   fst (require_index example_require freebsd_x64 fs_absent) =
     Inl (Error ''[Audify-JS-Plus] Unsupported platform: freebsd-x64. Supported platforms: win32-x64, win32-ia32, win32-arm64, darwin-x64, darwin-arm64, linux-x64, linux-arm64, linux-arm'')"
proof -
  have v: "\<not> vscode_pid freebsd_x64" by (simp add: freebsd_x64_def)
  from require_index_unsupported_lists_keys[of freebsd_x64 example_require fs_absent]
    freebsd_x64_key v
  have "fst (require_index example_require freebsd_x64 fs_absent) =
      Inl (Error (unsupported_message (platform_key freebsd_x64)))"
    by auto
  with freebsd_x64_key v show ?thesis by (simp add: freebsd_x64_message)
qed

subsection \<open>Objects\<close>

lemma map_of_obj_set: "map_of (obj_set obj k v) = (map_of obj)(k \<mapsto> v)"
  by (induction obj k v rule: obj_set.induct) auto

lemma keys_obj_set: "set (obj_keys (obj_set obj k v)) = insert k (set (obj_keys obj))"
  by (induction obj k v rule: obj_set.induct) (auto simp: obj_keys_def)

lemma obj_keys_Nil: "obj_keys [] = []"
  by (simp add: obj_keys_def)

lemma obj_keys_Cons: "obj_keys (p # ps) = fst p # obj_keys ps"
  by (simp add: obj_keys_def)

lemma obj_define_all_Cons:
  "obj_define_all obj (p # props) = obj_define_all (obj_set obj (fst p) (snd p)) props"
  by (simp add: obj_define_all_def case_prod_beta)

lemma keys_obj_define_all:
  "set (obj_keys (obj_define_all obj props)) = set (obj_keys obj) \<union> set (obj_keys props)"
proof (induction props arbitrary: obj)
  case Nil
  then show ?case by (simp add: obj_define_all_def obj_keys_Nil)
next
  case (Cons p props)
  have "set (obj_keys (obj_define_all obj (p # props))) =
      set (obj_keys (obj_set obj (fst p) (snd p))) \<union> set (obj_keys props)"
    by (simp only: obj_define_all_Cons Cons.IH)
  also have "\<dots> = insert (fst p) (set (obj_keys obj)) \<union> set (obj_keys props)"
    by (simp only: keys_obj_set)
  also have "\<dots> = set (obj_keys obj) \<union> set (obj_keys (p # props))"
    by (simp add: obj_keys_Cons)
  finally show ?case .
qed

subsection \<open>\<^verbatim>\<open>withErrorHandling\<close> and the exported object\<close>

lemma keys_spread: "set (obj_keys (spread rawAudify)) = set (obj_keys rawAudify)"
proof -
  have "obj_keys (map (\<lambda>(k, v). (k, Native v)) rawAudify) = obj_keys rawAudify"
    by (induction rawAudify) (auto simp: obj_keys_def)
  then show ?thesis
    by (simp add: spread_def keys_obj_define_all obj_keys_Nil)
qed

lemma keys_install_wrapper:
  "key \<in> set (obj_keys exports) \<Longrightarrow>
   set (obj_keys (install_wrapper rawAudify key exports)) = set (obj_keys exports)"
  by (auto simp: install_wrapper_def keys_obj_set split: option.splits native_value.splits)

lemma keys_fold_install_wrapper:
  "set ks \<subseteq> set (obj_keys exports) \<Longrightarrow>
   set (obj_keys (fold (install_wrapper rawAudify) ks exports)) = set (obj_keys exports)"
proof (induction ks arbitrary: exports)
  case Nil
  then show ?case by simp
next
  case (Cons k ks)
  then have k: "k \<in> set (obj_keys exports)" and ks: "set ks \<subseteq> set (obj_keys exports)"
    by auto
  have same: "set (obj_keys (install_wrapper rawAudify k exports)) = set (obj_keys exports)"
    using k by (rule keys_install_wrapper)
  with ks have "set ks \<subseteq> set (obj_keys (install_wrapper rawAudify k exports))" by simp
  from Cons.IH[OF this] same show ?case by simp
qed

lemma keys_audifyExports:
  "set (obj_keys (audifyExports rawAudify)) =
     set (obj_keys rawAudify) \<union>
     {''OpusApplication'', ''RtAudioApi'', ''RtAudioFormat'', ''RtAudioStreamFlags'',
      ''RtAudioErrorType'', ''getPlatformInfo'', ''version'', ''healthCheck''}"
proof -
  let ?own = "[(''OpusApplication'', Data (table OpusApplication)),
               (''RtAudioApi'', Data (table RtAudioApi)),
               (''RtAudioFormat'', Data (table RtAudioFormat)),
               (''RtAudioStreamFlags'', Data (table RtAudioStreamFlags)),
               (''RtAudioErrorType'', Data (table RtAudioErrorType)),
               (''getPlatformInfo'', Closure getPlatformInfo),
               (''version'', Data (JString version)),
               (''healthCheck'', Closure healthCheck)]"
  let ?literal = "obj_define_all (spread rawAudify) ?own"
  have lit: "set (obj_keys ?literal) =
      set (obj_keys rawAudify) \<union>
      {''OpusApplication'', ''RtAudioApi'', ''RtAudioFormat'', ''RtAudioStreamFlags'',
       ''RtAudioErrorType'', ''getPlatformInfo'', ''version'', ''healthCheck''}"
    by (simp add: keys_obj_define_all keys_spread obj_keys_Cons obj_keys_Nil)
  then have "set (obj_keys rawAudify) \<subseteq> set (obj_keys ?literal)"
    by (simp only: Un_upper1)
  then have "set (obj_keys (fold (install_wrapper rawAudify) (obj_keys rawAudify) ?literal)) =
      set (obj_keys ?literal)"
    by (rule keys_fold_install_wrapper)
  with lit show ?thesis
    by (simp only: audifyExports_def Let_def)
qed

lemma distinct_obj_set: "distinct (obj_keys obj) \<Longrightarrow> distinct (obj_keys (obj_set obj k v))"
proof (induction obj k v rule: obj_set.induct)
  case (1 k v)
  then show ?case by (simp add: obj_keys_def)
next
  case (2 k' v' ps k v)
  then show ?case
    using keys_obj_set[of ps k v] by (auto simp: obj_keys_def)
qed

lemma distinct_obj_define_all:
  "distinct (obj_keys obj) \<Longrightarrow> distinct (obj_keys (obj_define_all obj props))"
proof (induction props arbitrary: obj)
  case Nil
  then show ?case by (simp add: obj_define_all_def)
next
  case (Cons p props)
  then show ?case by (simp add: obj_define_all_Cons distinct_obj_set)
qed

lemma distinct_install_wrapper:
  "distinct (obj_keys exports) \<Longrightarrow> distinct (obj_keys (install_wrapper rawAudify key exports))"
  by (auto simp: install_wrapper_def distinct_obj_set split: option.splits native_value.splits)

lemma distinct_fold_install_wrapper:
  "distinct (obj_keys exports) \<Longrightarrow>
   distinct (obj_keys (fold (install_wrapper rawAudify) ks exports))"
  by (induction ks arbitrary: exports) (simp_all add: distinct_install_wrapper)

lemma distinct_audifyExports: "distinct (obj_keys (audifyExports rawAudify))"
proof -
  have "distinct (obj_keys (spread rawAudify))"
    unfolding spread_def by (rule distinct_obj_define_all) (simp add: obj_keys_Nil)
  then show ?thesis
    unfolding audifyExports_def Let_def
    by (intro distinct_fold_install_wrapper distinct_obj_define_all)
qed

text \<open>What the loop leaves under a key: the wrapper of the native function, if there is one.\<close>

lemma get_install_wrapper:
  "obj_get (install_wrapper rawAudify key exports) k =
     (if k = key then
        (case obj_get rawAudify key of
           Some (Function fn) \<Rightarrow> Some (Native (Function (withErrorHandling fn key)))
         | _ \<Rightarrow> obj_get exports k)
      else obj_get exports k)"
  by (auto simp: install_wrapper_def obj_get_def map_of_obj_set split: option.splits native_value.splits)

lemma get_fold_install_wrapper:
  "obj_get (fold (install_wrapper rawAudify) ks exports) k =
     (if k \<in> set ks then
        (case obj_get rawAudify k of
           Some (Function fn) \<Rightarrow> Some (Native (Function (withErrorHandling fn k)))
         | _ \<Rightarrow> obj_get exports k)
      else obj_get exports k)"
proof (induction ks arbitrary: exports)
  case Nil
  then show ?case by simp
next
  case (Cons key ks)
  show ?case
    by (simp add: Cons.IH get_install_wrapper split: option.splits native_value.splits)
qed

lemma get_audifyExports_function:
  assumes "obj_get rawAudify key = Some (Function fn)"
  shows "obj_get (audifyExports rawAudify) key = Some (Native (Function (withErrorHandling fn key)))"
proof -
  from assms have "key \<in> set (obj_keys rawAudify)"
    by (auto simp: obj_get_def obj_keys_def dest: map_of_SomeD intro: rev_image_eqI)
  with assms show ?thesis
    by (simp add: audifyExports_def Let_def get_fold_install_wrapper)
qed

lemma wrapper_body_returns:
  "fn (Call this) args = (Inr v, out) \<Longrightarrow> wrapper_body fn functionName this args = (Inr v, out)"
  by (simp add: wrapper_body_def try_catch_def)

lemma wrapper_body_throws:
  "fn (Call this) args = (Inl e, out) \<Longrightarrow>
   wrapper_body fn functionName this args =
     (Inl e, out @ [ConsoleError [Text (''[Audify-JS-Plus] Error in '' @ functionName @ '':''), Thrown e]])"
  by (simp add: wrapper_body_def try_catch_def bind_def console_error_def throw_def)

text \<open>Called, the wrapper has the outcome of the function called the same way.\<close>

lemma withErrorHandling_called:
  "fst (withErrorHandling fn functionName (Call this) args) = fst (fn (Call this) args)"
proof (cases "fn (Call this) args")
  case (Pair r out)
  then show ?thesis
    by (cases r) (simp_all add: withErrorHandling_def wrapper_body_returns wrapper_body_throws)
qed

text \<open>Constructed, the wrapper throws whatever the function throws when it is called.\<close>

lemma withErrorHandling_constructed_throws:
  assumes "fn (Call (Object new_object)) args = (Inl e, out)"
  shows "withErrorHandling fn functionName (Construct new_object) args =
     (Inl e, out @ [ConsoleError [Text (''[Audify-JS-Plus] Error in '' @ functionName @ '':''), Thrown e]])"
proof -
  have "wrapper_body fn functionName (Object new_object) args =
     (Inl e, out @ [ConsoleError [Text (''[Audify-JS-Plus] Error in '' @ functionName @ '':''), Thrown e]])"
    using assms by (rule wrapper_body_throws)
  then show ?thesis by (simp add: withErrorHandling_def)
qed

lemma loadNativeModule_loads:
  assumes "obj_get PLATFORM_MAP (platform_key h) = Some folder"
    and "existsSync f (path_join h [dirname h, ''prebuilds'', folder, ''build'', ''Release'', ''audify.node''])"
    and "readable f (path_join h [dirname h, ''prebuilds'', folder, ''build'', ''Release'', ''audify.node''])"
    and "req (path_join h [dirname h, ''prebuilds'', folder, ''build'', ''Release'', ''audify.node'']) = Inr rawAudify"
  shows "fst (loadNativeModule req h f) = Inr rawAudify"
proof -
  let ?p = "path_join h [dirname h, ''prebuilds'', folder, ''build'', ''Release'', ''audify.node'']"
  have vb: "verifyBinary f ?p = (Inr True, [ConsoleLog [Text (''[Audify-JS-Plus] Binary verified: '' @ ?p)]])"
    using assms(2,3) by (simp add: verifyBinary_readable readable_def)
  show ?thesis
    by (simp add: loadNativeModule_def getBinaryPath_supported[OF assms(1)] vb assms(4)
        bind_def try_catch_def console_log_def returns_def)
qed

lemma require_index_loads:
  assumes "fst (loadNativeModule req h f) = Inr rawAudify"
  shows "fst (require_index req h f) = Inr (audifyExports rawAudify)"
proof -
  obtain out where l: "loadNativeModule req h f = (Inr rawAudify, out)"
    using assms by (cases "loadNativeModule req h f") simp
  show ?thesis
    by (simp add: require_index_def load_rawAudify_def l try_catch_def bind_def returns_def)
qed

lemma example_module_keys:
  "obj_keys (audifyExports example_module) =
     [''getAvailableApis'', ''openStream'', ''napiVersion'', ''OpusApplication'', ''RtAudioApi'',
      ''RtAudioFormat'', ''RtAudioStreamFlags'', ''RtAudioErrorType'', ''getPlatformInfo'',
      ''version'', ''healthCheck'']"
  by (simp add: audifyExports_def spread_def example_module_def obj_define_all_def obj_keys_def
      obj_get_def install_wrapper_def Let_def)

text \<open>
  Claim C6 says that for every function of the native module and every argument list
  the wrapper built by \<^verbatim>\<open>withErrorHandling\<close> has the outcome of the function itself.
  The code misses the functions that are classes. The exported object holds the wrapper
  in place of the class \<^verbatim>\<open>OpusEncoder\<close>; \<^verbatim>\<open>new OpusEncoder(48000, 1, 2049)\<close> on the
  class of the native module returns the new encoder, and on the exported wrapper it
  throws the \<^verbatim>\<open>TypeError\<close> of a class called without \<^verbatim>\<open>new\<close>, after logging it,
  because the wrapper passes the construction on as \<^verbatim>\<open>fn.apply(this, args)\<close>.
\<close>

theorem withErrorHandling_breaks_new:
  "obj_get example_class_module ''OpusEncoder'' = Some (Function OpusEncoder) \<and>
   obj_get (audifyExports example_class_module) ''OpusEncoder'' =
     Some (Native (Function (withErrorHandling OpusEncoder ''OpusEncoder''))) \<and>
   OpusEncoder (Construct 0) [Primitive 48000, Primitive 1, Primitive 2049] = (Inr (Object 0), []) \<and>
   withErrorHandling OpusEncoder ''OpusEncoder'' (Construct 0)
       [Primitive 48000, Primitive 1, Primitive 2049] =
     (Inl (Error (''Class constructors cannot be invoked without '' @ [CHR 0x27] @ ''new'' @ [CHR 0x27])),
      [ConsoleError [Text ''[Audify-JS-Plus] Error in OpusEncoder:'',
         Thrown (Error (''Class constructors cannot be invoked without '' @ [CHR 0x27] @ ''new'' @ [CHR 0x27]))]])"
proof -
  have g: "obj_get example_class_module ''OpusEncoder'' = Some (Function OpusEncoder)"
    by (simp add: obj_get_def example_class_module_def)
  have e: "obj_get (audifyExports example_class_module) ''OpusEncoder'' =
     Some (Native (Function (withErrorHandling OpusEncoder ''OpusEncoder'')))"
    using g by (rule get_audifyExports_function)
  have n: "OpusEncoder (Construct 0) [Primitive 48000, Primitive 1, Primitive 2049] = (Inr (Object 0), [])"
    by (simp add: OpusEncoder_def returns_def)
  have c: "OpusEncoder (Call (Object 0)) [Primitive 48000, Primitive 1, Primitive 2049] =
      (Inl class_call_error, [])"
    by (simp add: OpusEncoder_def throw_def)
  have w: "withErrorHandling OpusEncoder ''OpusEncoder'' (Construct 0)
       [Primitive 48000, Primitive 1, Primitive 2049] =
     (Inl (Error (''Class constructors cannot be invoked without '' @ [CHR 0x27] @ ''new'' @ [CHR 0x27])),
      [ConsoleError [Text ''[Audify-JS-Plus] Error in OpusEncoder:'',
         Thrown (Error (''Class constructors cannot be invoked without '' @ [CHR 0x27] @ ''new'' @ [CHR 0x27]))]])"
    using withErrorHandling_constructed_throws[of OpusEncoder 0 _ class_call_error "[]" "''OpusEncoder''"] c
    by (simp add: class_call_error_def)
  from g e n w show ?thesis by (intro conjI)
qed

text \<open>
  Claim C8. The exported object has every key of the native module, the five names of
  the constant tables, \<^verbatim>\<open>getPlatformInfo\<close> and \<^verbatim>\<open>healthCheck\<close> among its keys (and
  \<^verbatim>\<open>version\<close>, and no other). For a supported platform whose artifact is present,
  readable and loadable, loading \<^verbatim>\<open>index.js\<close> returns this object.
\<close>

theorem public_surface_keys:
  "set (obj_keys rawAudify) \<union>
     {''OpusApplication'', ''RtAudioApi'', ''RtAudioFormat'', ''RtAudioStreamFlags'',
      ''RtAudioErrorType'', ''getPlatformInfo'', ''healthCheck''}
     \<subseteq> set (obj_keys (audifyExports rawAudify)) \<and>
   set (obj_keys (audifyExports rawAudify)) =
     set (obj_keys rawAudify) \<union>
     {''OpusApplication'', ''RtAudioApi'', ''RtAudioFormat'', ''RtAudioStreamFlags'',
      ''RtAudioErrorType'', ''getPlatformInfo'', ''version'', ''healthCheck''} \<and>
   distinct (obj_keys (audifyExports rawAudify)) \<and>
   (\<forall>folder.
      obj_get PLATFORM_MAP (platform_key h) = Some folder \<and>
      existsSync f (path_join h [dirname h, ''prebuilds'', folder, ''build'', ''Release'', ''audify.node'']) \<and>
      readable f (path_join h [dirname h, ''prebuilds'', folder, ''build'', ''Release'', ''audify.node'']) \<and>
      req (path_join h [dirname h, ''prebuilds'', folder, ''build'', ''Release'', ''audify.node'']) = Inr rawAudify
      \<longrightarrow> fst (require_index req h f) = Inr (audifyExports rawAudify))"
proof (intro conjI allI impI)
  show "set (obj_keys rawAudify) \<union>
     {''OpusApplication'', ''RtAudioApi'', ''RtAudioFormat'', ''RtAudioStreamFlags'',
      ''RtAudioErrorType'', ''getPlatformInfo'', ''healthCheck''}
     \<subseteq> set (obj_keys (audifyExports rawAudify))"
    by (simp add: keys_audifyExports) (intro subset_insertI2 subset_refl)
  show "set (obj_keys (audifyExports rawAudify)) =
     set (obj_keys rawAudify) \<union>
     {''OpusApplication'', ''RtAudioApi'', ''RtAudioFormat'', ''RtAudioStreamFlags'',
      ''RtAudioErrorType'', ''getPlatformInfo'', ''version'', ''healthCheck''}"
    by (rule keys_audifyExports)
  show "distinct (obj_keys (audifyExports rawAudify))"
    by (rule distinct_audifyExports)
next
  fix folder
  assume a: "obj_get PLATFORM_MAP (platform_key h) = Some folder \<and>
      existsSync f (path_join h [dirname h, ''prebuilds'', folder, ''build'', ''Release'', ''audify.node'']) \<and>
      readable f (path_join h [dirname h, ''prebuilds'', folder, ''build'', ''Release'', ''audify.node'']) \<and>
      req (path_join h [dirname h, ''prebuilds'', folder, ''build'', ''Release'', ''audify.node'']) = Inr rawAudify"
  then have "fst (loadNativeModule req h f) = Inr rawAudify"
    by (intro loadNativeModule_loads[of h folder f req rawAudify]) simp_all
  then show "fst (require_index req h f) = Inr (audifyExports rawAudify)"
    by (rule require_index_loads)
qed

theorem public_surface_keys_witness:
  "obj_get PLATFORM_MAP (platform_key linux_x64) = Some ''linux-x64'' \<and>
   existsSync fs_present linux_artifact \<and> readable fs_present linux_artifact \<and>
   example_require linux_artifact = Inr example_module \<and>
   fst (require_index example_require linux_x64 fs_present) = Inr (audifyExports example_module) \<and>
   obj_keys (audifyExports example_module) =
     [''getAvailableApis'', ''openStream'', ''napiVersion'', ''OpusApplication'', ''RtAudioApi'',
      ''RtAudioFormat'', ''RtAudioStreamFlags'', ''RtAudioErrorType'', ''getPlatformInfo'',
      ''version'', ''healthCheck'']"
proof -
  have r: "example_require linux_artifact = Inr example_module"
    by (simp add: example_require_def)
  have "fst (require_index example_require linux_x64 fs_present) = Inr (audifyExports example_module)"
    using public_surface_keys[of example_module linux_x64 fs_present example_require]
      linux_x64_key fs_present_artifact r
    by (simp add: linux_x64_path)
  with linux_x64_key fs_present_artifact r example_module_keys show ?thesis by simp
qed

subsection \<open>\<^verbatim>\<open>setBinaryPermissions\<close>\<close>

lemma mode_0o755_bits:
  "rwx (owner_bits mode_0o755) = (True, True, True) \<and>
   rwx (group_bits mode_0o755) = (True, False, True) \<and>
   rwx (other_bits mode_0o755) = (True, False, True) \<and>
   mode_0o755 < 512"
  by (simp add: rwx_def owner_bits_def group_bits_def other_bits_def mode_0o755_def)

lemma setBinaryPermissions_win32:
  "platform h = ''win32'' \<Longrightarrow>
   setBinaryPermissions h f p =
     ((Inr True, [ConsoleLog [Text ''[Audify-JS-Plus] Windows detected, skipping permission setup'']]), f)"
  by (simp add: setBinaryPermissions_def bind_def console_log_def returns_def)

lemma setBinaryPermissions_absent:
  "platform h \<noteq> ''win32'' \<Longrightarrow> \<not> existsSync f p \<Longrightarrow>
   setBinaryPermissions h f p =
     ((Inr False, [ConsoleWarn [Text (''[Audify-JS-Plus] Warning: Binary not found at '' @ p)]]), f)"
  by (simp add: setBinaryPermissions_def bind_def try_catch_def console_warn_def returns_def)

lemma setBinaryPermissions_changed:
  "platform h \<noteq> ''win32'' \<Longrightarrow> existsSync f p \<Longrightarrow> chmod_error f p = None \<Longrightarrow>
   setBinaryPermissions h f p =
     ((Inr True, [ConsoleLog [Text (''[Audify-JS-Plus] Set executable permissions for '' @ p)]]),
      f\<lparr>file_mode := (file_mode f)(p \<mapsto> mode_0o755)\<rparr>)"
  by (auto simp: setBinaryPermissions_def chmodSync_def existsSync_def bind_def try_catch_def
      console_log_def returns_def)

lemma setBinaryPermissions_denied:
  "platform h \<noteq> ''win32'' \<Longrightarrow> existsSync f p \<Longrightarrow> chmod_error f p = Some e \<Longrightarrow>
   setBinaryPermissions h f p =
     ((Inr False, [ConsoleError [Text ''[Audify-JS-Plus] Failed to set permissions:'', Text (message e)]]), f)"
  by (auto simp: setBinaryPermissions_def chmodSync_def existsSync_def bind_def try_catch_def
      console_error_def returns_def throw_def)

lemma fs_chmod_denied_artifact:
  "existsSync fs_chmod_denied linux_artifact \<and>
   chmod_error fs_chmod_denied linux_artifact =
     Some (Error (''EPERM: operation not permitted, chmod '' @ [CHR 0x27] @ linux_artifact @ [CHR 0x27])) \<and>
   file_mode fs_chmod_denied linux_artifact = Some mode_0o644"
  by (simp add: existsSync_def fs_chmod_denied_def only_artifact_def EPERM_def)

lemma linux_x64_not_win32: "platform linux_x64 \<noteq> ''win32''"
  by (simp add: linux_x64_def)

lemma win32_x64_win32: "platform win32_x64 = ''win32''"
  by (simp add: win32_x64_def)

lemma mode_0o644_differs: "mode_0o644 \<noteq> mode_0o755"
  by (simp add: mode_0o644_def mode_0o755_def)

text \<open>
  Claim C9, as stated: on every target that is not Windows and where the artifact
  exists, the mode becomes \<^verbatim>\<open>0o755\<close> and the step reports success. On the Linux host
  whose artifact exists but is not ours to change, \<^verbatim>\<open>chmodSync\<close> throws, the step
  reports failure and the mode stays \<^verbatim>\<open>0o644\<close>.
\<close>

theorem setBinaryPermissions_denied_counterexample:
  "platform linux_x64 \<noteq> ''win32'' \<and>
   existsSync fs_chmod_denied linux_artifact \<and>
   fst (fst (setBinaryPermissions linux_x64 fs_chmod_denied linux_artifact)) = Inr False \<and>
   file_mode (snd (setBinaryPermissions linux_x64 fs_chmod_denied linux_artifact)) linux_artifact =
     Some mode_0o644 \<and>
   mode_0o644 \<noteq> mode_0o755"
  using fs_chmod_denied_artifact linux_x64_not_win32 mode_0o644_differs
  by (simp add: setBinaryPermissions_denied)

text \<open>
  Claim C9, amended. On every target that is not Windows, where the artifact exists and
  \<^verbatim>\<open>chmodSync\<close> does not throw, \<^verbatim>\<open>setBinaryPermissions\<close> sets the mode of the file to
  exactly \<^verbatim>\<open>0o755\<close> (owner read, write and execute; group and other read and execute),
  leaves every other file as it is and returns \<^verbatim>\<open>true\<close>. When \<^verbatim>\<open>chmodSync\<close> throws it
  changes nothing and returns \<^verbatim>\<open>false\<close>. On Windows it changes nothing and returns
  \<^verbatim>\<open>true\<close>.
\<close>

theorem setBinaryPermissions_sets_mode:
  "rwx (owner_bits mode_0o755) = (True, True, True) \<and>
   rwx (group_bits mode_0o755) = (True, False, True) \<and>
   rwx (other_bits mode_0o755) = (True, False, True) \<and>
   mode_0o755 < 512 \<and>
   (platform h \<noteq> ''win32'' \<and> existsSync f p \<and> chmod_error f p = None \<longrightarrow>
      fst (fst (setBinaryPermissions h f p)) = Inr True \<and>
      file_mode (snd (setBinaryPermissions h f p)) p = Some mode_0o755 \<and>
      (\<forall>q. q \<noteq> p \<longrightarrow> file_mode (snd (setBinaryPermissions h f p)) q = file_mode f q)) \<and>
   (\<forall>e. platform h \<noteq> ''win32'' \<and> existsSync f p \<and> chmod_error f p = Some e \<longrightarrow>
      fst (fst (setBinaryPermissions h f p)) = Inr False \<and>
      snd (setBinaryPermissions h f p) = f) \<and>
   (platform h = ''win32'' \<longrightarrow>
      fst (fst (setBinaryPermissions h f p)) = Inr True \<and>
      snd (setBinaryPermissions h f p) = f)"
  using mode_0o755_bits
  by (simp add: setBinaryPermissions_win32 setBinaryPermissions_changed setBinaryPermissions_denied)

theorem setBinaryPermissions_sets_mode_witness:
  "platform linux_x64 \<noteq> ''win32'' \<and>
   existsSync fs_present linux_artifact \<and> chmod_error fs_present linux_artifact = None \<and>
   file_mode fs_present linux_artifact = Some mode_0o644 \<and>
   fst (fst (setBinaryPermissions linux_x64 fs_present linux_artifact)) = Inr True \<and>
   file_mode (snd (setBinaryPermissions linux_x64 fs_present linux_artifact)) linux_artifact =
     Some mode_0o755 \<and>
   existsSync fs_chmod_denied linux_artifact \<and>
   fst (fst (setBinaryPermissions linux_x64 fs_chmod_denied linux_artifact)) = Inr False \<and>
   snd (setBinaryPermissions linux_x64 fs_chmod_denied linux_artifact) = fs_chmod_denied \<and>
   platform win32_x64 = ''win32'' \<and>
   fst (fst (setBinaryPermissions win32_x64 fs_present linux_artifact)) = Inr True \<and>
   snd (setBinaryPermissions win32_x64 fs_present linux_artifact) = fs_present"
proof -
  have p: "chmod_error fs_present linux_artifact = None \<and>
           file_mode fs_present linux_artifact = Some mode_0o644"
    by (simp add: fs_present_def no_error_def only_artifact_def)
  note t1 = setBinaryPermissions_sets_mode[of linux_x64 fs_present linux_artifact]
  note t2 = setBinaryPermissions_sets_mode[of linux_x64 fs_chmod_denied linux_artifact]
  note t3 = setBinaryPermissions_sets_mode[of win32_x64 fs_present linux_artifact]
  have a: "fst (fst (setBinaryPermissions linux_x64 fs_present linux_artifact)) = Inr True \<and>
      file_mode (snd (setBinaryPermissions linux_x64 fs_present linux_artifact)) linux_artifact =
        Some mode_0o755"
    using t1 linux_x64_not_win32 fs_present_artifact p by blast
  have b: "fst (fst (setBinaryPermissions linux_x64 fs_chmod_denied linux_artifact)) = Inr False \<and>
      snd (setBinaryPermissions linux_x64 fs_chmod_denied linux_artifact) = fs_chmod_denied"
    using t2 linux_x64_not_win32 fs_chmod_denied_artifact by blast
  have c: "fst (fst (setBinaryPermissions win32_x64 fs_present linux_artifact)) = Inr True \<and>
      snd (setBinaryPermissions win32_x64 fs_present linux_artifact) = fs_present"
    using t3 win32_x64_win32 by blast
  from a b c p linux_x64_not_win32 win32_x64_win32 fs_present_artifact fs_chmod_denied_artifact
  show ?thesis by (elim conjE) (intro conjI, assumption+)
qed

end
